theory Spec2Isabelle
  imports
    Main
    "HOL-Library.Sublist"
    "HOL-Library.Char_ord"
    "HOL-Library.List_Lexorder"
begin

section \<open>Python string and path primitives used by the exporter\<close>

text \<open>
  Python \<open>str\<close> values are modelled as \<^typ>\<open>string\<close> (lists of 8-bit characters, the
  UTF-8 bytes of the text). Comparison of two strings is the lexicographic order of
  \<open>HOL-Library.List_Lexorder\<close> over the character codes, which is how Python orders
  \<open>str\<close> values. \<open>str.lower\<close> is modelled on the ASCII letters; other bytes are left
  unchanged.
\<close>

definition lower_char :: "char \<Rightarrow> char" where
  "lower_char c =
     (case map_of (zip ''ABCDEFGHIJKLMNOPQRSTUVWXYZ'' ''abcdefghijklmnopqrstuvwxyz'') c of
        None \<Rightarrow> c
      | Some l \<Rightarrow> l)"

definition str_lower :: "string \<Rightarrow> string" where
  "str_lower s = map lower_char s"

text \<open>\<open>s.split(sep)\<close> for a one-character separator: \<open>"".split(",") == [""]\<close>.\<close>

fun str_split :: "char \<Rightarrow> string \<Rightarrow> string list" where
  "str_split sep [] = [[]]"
| "str_split sep (c # cs) =
     (if c = sep then [] # str_split sep cs
      else (case str_split sep cs of
              [] \<Rightarrow> [[c]]
            | w # ws \<Rightarrow> (c # w) # ws))"

text \<open>\<open>sub in s\<close> for two strings: \<open>sub\<close> occurs in \<open>s\<close> as a contiguous block.\<close>

primrec str_contains :: "string \<Rightarrow> string \<Rightarrow> bool" where
  "str_contains sub [] = (sub = [])"
| "str_contains sub (c # cs) = (prefix sub (c # cs) \<or> str_contains sub cs)"

text \<open>
  \<open>s.replace(old, new)\<close>: the occurrences of \<open>old\<close> are replaced from left to right,
  without overlap. For an empty \<open>old\<close> Python puts \<open>new\<close> before every character and
  at the end.
\<close>

function str_replace :: "string \<Rightarrow> string \<Rightarrow> string \<Rightarrow> string" where
  "str_replace old new [] = (if old = [] then new else [])"
| "str_replace old new (c # cs) =
     (if old = [] then new @ c # str_replace old new cs
      else if prefix old (c # cs)
        then new @ str_replace old new (drop (length old) (c # cs))
        else c # str_replace old new cs)"
  by pat_completeness auto
termination
  by (relation "measure (\<lambda>(old, new, s). length s)") auto

text \<open>\<open>os.path.join(a, b)\<close> of \<open>posixpath\<close>, for two components.\<close>

definition path_join :: "string \<Rightarrow> string \<Rightarrow> string" where
  "path_join a b =
     (if prefix ''/'' b then b
      else if a = [] \<or> suffix ''/'' a then a @ b
      else a @ ''/'' @ b)"

section \<open>Data model\<close>

text \<open>
  A version identifier as the registry returns it: the REST registry gives a \<open>str\<close>, a
  registry backed by a database an \<open>int\<close>. The code never converts it. Two identifiers
  are equal when they are of the same kind and equal, as Python's \<open>==\<close> has it.
\<close>

datatype version_id = VStr string | VInt int

text \<open>
  Exceptions derived from Python's \<open>Exception\<close>. \<open>RestException\<close> carries \<open>str(e)\<close>;
  \<open>BothStagesAndVersions\<close> is the \<open>MlflowExportImportException\<close> of the constructor with the
  two lists its message shows; \<open>OtherException\<close> is any exception that is neither, with
  the name of its class.
\<close>

datatype exn =
    RestException string
  | BothStagesAndVersions "string list" "version_id list"
  | OtherException string

text \<open>
  A version object as the registry returns it. \<open>run_id\<close> is \<open>None\<close> for a version that
  was registered without a run.
\<close>

record model_version =
  version :: version_id
  current_stage :: string
  run_id :: "string option"
  description :: string
  tags :: "(string \<times> string) list"

text \<open>The dictionary appended to the manifest for every attempted version.\<close>

record manifest_entry =
  m_version :: version_id
  m_stage :: string
  m_run_id :: "string option"
  m_description :: string
  m_tags :: "(string \<times> string) list"

record run_info =
  artifact_uri :: string
  experiment_id :: string

record run =
  info :: run_info

record mlflow_experiment =
  name :: string

text \<open>\<open>dict(vr)\<close> with the two derived keys added.\<close>

record exported_version =
  ev_fields :: model_version
  ev_run_artifact_uri :: string
  ev_experiment_name :: string

record export_info =
  created :: "(string \<times> string) list"
  num_target_stages :: nat
  num_target_versions :: nat
  num_src_versions :: nat
  num_dst_versions :: nat

record document =
  registered_model :: "(string \<times> string) list"
  latest_versions :: "exported_version list"
  doc_export_info :: export_info

text \<open>What the component prints, in order.\<close>

datatype event =
    WarningStage string
  | FoundVersions nat string
  | Exporting manifest_entry
  | WarningRunMissing version_id exn
  | Traceback exn
  | Exported nat nat string
  | Error exn

text \<open>The fields of a constructed \<open>ModelExporter\<close>.\<close>

record 'rx model_exporter =
  run_exporter :: 'rx
  stages :: "string list"
  export_run :: bool
  versions :: "version_id list"

text \<open>The \<open>stages\<close> argument of the constructor: \<open>None\<close>, a string, or a list of strings.\<close>

datatype stages_arg = StagesStr string | StagesList "string list"

section \<open>Construction\<close>

text \<open>Lines 114-115: a string argument is split at the commas.\<close>

definition stage_list :: "stages_arg \<Rightarrow> string list" where
  "stage_list a = (case a of StagesStr s \<Rightarrow> str_split CHR '','' s | StagesList l \<Rightarrow> l)"

text \<open>
  \<open>_normalize_stages\<close>. The table \<open>model_version_stages._CANONICAL_MAPPING\<close> belongs to
  the MLflow library; its keys are the parameter \<open>canonical\<close>. The result is the
  normalised list together with the warnings printed.
\<close>

definition normalize_stages ::
  "string list \<Rightarrow> stages_arg option \<Rightarrow> string list \<times> event list" where
  "normalize_stages canonical arg =
     (case arg of
        None \<Rightarrow> ([], [])
      | Some a \<Rightarrow>
          (let lowered = map str_lower (stage_list a)
           in (lowered, map WarningStage (filter (\<lambda>stage. stage \<notin> set canonical) lowered))))"

text \<open>
  \<open>ModelExporter.__init__\<close>. \<open>new_run_exporter\<close> is the constructor of the sibling class
  \<open>RunExporter\<close>, called before the filters are looked at.
\<close>

definition ModelExporter_init ::
  "string list \<Rightarrow> (bool \<Rightarrow> string list option \<Rightarrow> exn + 'rx) \<Rightarrow>
   bool \<Rightarrow> string list option \<Rightarrow> stages_arg option \<Rightarrow> version_id list option \<Rightarrow> bool \<Rightarrow>
   (exn + 'rx model_exporter) \<times> event list" where
  "ModelExporter_init canonical new_run_exporter export_source_tags notebook_formats
       stages_in versions_in export_run_in =
     (case new_run_exporter export_source_tags notebook_formats of
        Inl e \<Rightarrow> (Inl e, [])
      | Inr rx \<Rightarrow>
          (case normalize_stages canonical stages_in of
             (stgs, warnings) \<Rightarrow>
               (let vers = (case versions_in of
                              None \<Rightarrow> []
                            | Some vs \<Rightarrow> (if vs \<noteq> [] then vs else []))
                in if length stgs > 0 \<and> length vers > 0
                   then (Inl (BothStagesAndVersions stgs vers), warnings)
                   else (Inr \<lparr>run_exporter = rx, stages = stgs,
                              export_run = export_run_in, versions = vers\<rparr>, warnings))))"

section \<open>Collaborators and effects\<close>

text \<open>
  The registry client, the run exporter and the filesystem are outside this component.
  Each of their operations may change the outside world \<open>'w\<close> and either returns a value
  or raises. The component's own effect is what it prints.
\<close>

record 'w st =
  world :: 'w
  out :: "event list"

type_synonym ('w, 'a) action = "'w st \<Rightarrow> (exn + 'a) \<times> 'w st"

text \<open>
  The operations \<open>_export_model\<close> calls, in the order of the source:
  \<open>_filesystem.get_filesystem\<close>, \<open>fs.mkdirs\<close>, \<open>mlflow_client.search_model_versions\<close>,
  \<open>run_exporter.export_run\<close>, \<open>mlflow_client.get_run\<close>, \<open>mlflow.get_experiment\<close>,
  \<open>mlflow_client.get_registered_model\<close> (with the transcoding of lines 89-90 to a
  dictionary), \<open>utils.create_export_info\<close> and \<open>utils.write_json_file\<close>.
\<close>

record ('w, 'fs, 'rx) env =
  get_filesystem :: "string \<Rightarrow> 'w \<Rightarrow> (exn + 'fs) \<times> 'w"
  mkdirs :: "'fs \<Rightarrow> string \<Rightarrow> 'w \<Rightarrow> (exn + unit) \<times> 'w"
  search_model_versions :: "string \<Rightarrow> 'w \<Rightarrow> (exn + model_version list) \<times> 'w"
  run_exporter_export_run :: "'rx \<Rightarrow> string \<Rightarrow> string \<Rightarrow> 'w \<Rightarrow> (exn + unit) \<times> 'w"
  get_run :: "string \<Rightarrow> 'w \<Rightarrow> (exn + run) \<times> 'w"
  get_experiment :: "string \<Rightarrow> 'w \<Rightarrow> (exn + mlflow_experiment) \<times> 'w"
  get_registered_model :: "string \<Rightarrow> 'w \<Rightarrow> (exn + (string \<times> string) list) \<times> 'w"
  create_export_info :: "'w \<Rightarrow> (exn + (string \<times> string) list) \<times> 'w"
  write_json_file :: "'fs \<Rightarrow> string \<Rightarrow> document \<Rightarrow> 'w \<Rightarrow> (exn + unit) \<times> 'w"

definition call :: "('w \<Rightarrow> (exn + 'a) \<times> 'w) \<Rightarrow> ('w, 'a) action" where
  "call f s = (case f (world s) of (r, w') \<Rightarrow> (r, s\<lparr>world := w'\<rparr>))"

definition print :: "event \<Rightarrow> ('w, unit) action" where
  "print ev s = (Inr (), s\<lparr>out := out s @ [ev]\<rparr>)"

definition return_ok :: "'a \<Rightarrow> ('w, 'a) action" where
  "return_ok x s = (Inr x, s)"

text \<open>A step of the component itself that touches nothing outside and may raise.\<close>

definition raise_or_return :: "exn + 'a \<Rightarrow> ('w, 'a) action" where
  "raise_or_return r s = (r, s)"

text \<open>Sequencing: an exception of the first action skips the rest.\<close>

definition bind_ex :: "('w, 'a) action \<Rightarrow> ('a \<Rightarrow> ('w, 'b) action) \<Rightarrow> ('w, 'b) action" where
  "bind_ex m f s = (case m s of (Inl e, s') \<Rightarrow> (Inl e, s') | (Inr x, s') \<Rightarrow> f x s')"

section \<open>Exporting a model\<close>

text \<open>The three local accumulators of \<open>_export_model\<close>.\<close>

record loop_acc =
  manifest :: "manifest_entry list"
  output_versions :: "exported_version list"
  exported_versions :: nat

text \<open>Lines 65-66: the output path of one run.\<close>

definition version_opath :: "string \<Rightarrow> string \<Rightarrow> string" where
  "version_opath output_dir rid = str_replace ''dbfs:'' ''/dbfs'' (path_join output_dir rid)"

text \<open>Line 67: the manifest dictionary of a version.\<close>

definition manifest_dct :: "model_version \<Rightarrow> manifest_entry" where
  "manifest_dct vr =
     \<lparr>m_version = version vr, m_stage = current_stage vr, m_run_id = run_id vr,
      m_description = description vr, m_tags = tags vr\<rparr>"

text \<open>Lines 71-72: the run is exported only when the flag is set.\<close>

definition export_run_step ::
  "'rx model_exporter \<Rightarrow> ('w, 'fs, 'rx) env \<Rightarrow> string \<Rightarrow> string \<Rightarrow> ('w, unit) action" where
  "export_run_step ex env rid opath =
     (if export_run ex
      then call (run_exporter_export_run env (run_exporter ex) rid opath)
      else return_ok ())"

text \<open>
  Lines 71-79: the body of the \<open>try\<close> statement; \<open>rid\<close> and \<open>opath\<close> are the locals
  \<open>run_id\<close> and \<open>opath\<close>.
\<close>

definition try_body ::
  "'rx model_exporter \<Rightarrow> ('w, 'fs, 'rx) env \<Rightarrow> model_version \<Rightarrow> string \<Rightarrow> string \<Rightarrow>
   loop_acc \<Rightarrow> ('w, loop_acc) action" where
  "try_body ex env vr rid opath acc =
     bind_ex (export_run_step ex env rid opath)
       (\<lambda>_. bind_ex (call (get_run env rid))
       (\<lambda>r. bind_ex (call (get_experiment env (experiment_id (info r))))
       (\<lambda>e. return_ok
               (acc\<lparr>output_versions := output_versions acc @
                       [\<lparr>ev_fields = vr, ev_run_artifact_uri = artifact_uri (info r),
                         ev_experiment_name = name e\<rparr>],
                    exported_versions := exported_versions acc + 1\<rparr>))))"

text \<open>
  Lines 64-85: what the loop does with a version that passed both filters. For a
  \<open>run_id\<close> that is \<open>None\<close>, \<open>os.path.join\<close> raises a \<open>TypeError\<close> before anything is
  printed or recorded. Only a \<open>RestException\<close> is handled; any other exception leaves the
  loop.
\<close>

definition export_version ::
  "'rx model_exporter \<Rightarrow> ('w, 'fs, 'rx) env \<Rightarrow> string \<Rightarrow> model_version \<Rightarrow> loop_acc \<Rightarrow>
   ('w, loop_acc) action" where
  "export_version ex env output_dir vr acc s =
     (case run_id vr of
        None \<Rightarrow> (Inl (OtherException ''TypeError''), s)
      | Some rid \<Rightarrow>
         (let opath = version_opath output_dir rid;
              dct = manifest_dct vr;
              s1 = s\<lparr>out := out s @ [Exporting dct]\<rparr>;
              acc1 = acc\<lparr>manifest := manifest acc @ [dct]\<rparr>
          in case try_body ex env vr rid opath acc1 s1 of
               (Inr acc2, s2) \<Rightarrow> (Inr acc2, s2)
             | (Inl e, s2) \<Rightarrow>
                 (case e of
                    RestException msg \<Rightarrow>
                      (if str_contains ''RESOURCE_DOES_NOT_EXIST: Run'' msg
                       then (Inr acc1, s2\<lparr>out := out s2 @ [WarningRunMissing (version vr) e]\<rparr>)
                       else (Inr acc1, s2\<lparr>out := out s2 @ [Traceback e]\<rparr>))
                  | BothStagesAndVersions a b \<Rightarrow> (Inl e, s2)
                  | OtherException msg \<Rightarrow> (Inl e, s2))))"

text \<open>Lines 59-85: the loop over the versions the registry returned.\<close>

fun export_versions ::
  "'rx model_exporter \<Rightarrow> ('w, 'fs, 'rx) env \<Rightarrow> string \<Rightarrow> model_version list \<Rightarrow> loop_acc \<Rightarrow>
   ('w, loop_acc) action" where
  "export_versions ex env output_dir [] acc s = (Inr acc, s)"
| "export_versions ex env output_dir (vr # vrs) acc s =
     (if length (stages ex) > 0 \<and> \<not> str_lower (current_stage vr) \<in> set (stages ex)
        then export_versions ex env output_dir vrs acc s
      else if length (versions ex) > 0 \<and> \<not> version vr \<in> set (versions ex)
        then export_versions ex env output_dir vrs acc s
      else (case export_version ex env output_dir vr acc s of
              (Inl e, s') \<Rightarrow> (Inl e, s')
            | (Inr acc', s') \<Rightarrow> export_versions ex env output_dir vrs acc' s'))"

text \<open>
  Line 86: the stable sort on the \<open>version\<close> key, compared as Python compares the keys.
  Strings are compared with strings (lexicographically) and integers with integers
  (numerically); a list that holds both makes the sort compare a string with an integer,
  which raises a \<open>TypeError\<close>. The two key functions are read only on a list of their
  kind.
\<close>

fun is_str :: "version_id \<Rightarrow> bool" where
  "is_str (VStr t) = True"
| "is_str (VInt i) = False"

fun is_int :: "version_id \<Rightarrow> bool" where
  "is_int (VStr t) = False"
| "is_int (VInt i) = True"

fun str_key :: "version_id \<Rightarrow> string" where
  "str_key (VStr t) = t"
| "str_key (VInt i) = []"

fun int_key :: "version_id \<Rightarrow> int" where
  "int_key (VStr t) = 0"
| "int_key (VInt i) = i"

definition sort_output :: "exported_version list \<Rightarrow> exn + exported_version list" where
  "sort_output xs =
     (if list_all (\<lambda>x. is_str (version (ev_fields x))) xs
        then Inr (sort_key (\<lambda>x. str_key (version (ev_fields x))) xs)
      else if list_all (\<lambda>x. is_int (version (ev_fields x))) xs
        then Inr (sort_key (\<lambda>x. int_key (version (ev_fields x))) xs)
      else Inl (OtherException ''TypeError''))"

text \<open>Lines 92-102: the document that is written.\<close>

definition make_document ::
  "'rx model_exporter \<Rightarrow> model_version list \<Rightarrow> exported_version list \<Rightarrow>
   (string \<times> string) list \<Rightarrow> (string \<times> string) list \<Rightarrow> document" where
  "make_document ex vrs outs model meta =
     \<lparr>registered_model = model,
      latest_versions = outs,
      doc_export_info =
        \<lparr>created = meta,
         num_target_stages = length (stages ex),
         num_target_versions = length (versions ex),
         num_src_versions = length vrs,
         num_dst_versions = length outs\<rparr>\<rparr>"

text \<open>
  Lines 51-56 of \<open>_export_model\<close>: the output directory is made and the registry is
  asked for the versions of the model. The result is the filesystem handle and the
  registry's response.
\<close>

definition list_versions ::
  "('w, 'fs, 'rx) env \<Rightarrow> string \<Rightarrow> string \<Rightarrow> ('w, 'fs \<times> model_version list) action" where
  "list_versions env model_name output_dir =
     bind_ex (call (get_filesystem env output_dir))
       (\<lambda>fs. bind_ex (call (mkdirs env fs output_dir))
       (\<lambda>_. bind_ex (call (search_model_versions env
                              (''name='' @ [CHR 39] @ model_name @ [CHR 39])))
       (\<lambda>vrs. bind_ex (print (FoundVersions (length vrs) model_name))
       (\<lambda>_. return_ok (fs, vrs)))))"

text \<open>
  Lines 51-104 of \<open>_export_model\<close>: everything before the file is written. The result
  is the filesystem handle, the manifest and the assembled document.
\<close>

definition export_model_document ::
  "'rx model_exporter \<Rightarrow> ('w, 'fs, 'rx) env \<Rightarrow> string \<Rightarrow> string \<Rightarrow>
   ('w, 'fs \<times> manifest_entry list \<times> document) action" where
  "export_model_document ex env model_name output_dir =
     bind_ex (list_versions env model_name output_dir)
       (\<lambda>(fs, vrs). bind_ex (export_versions ex env output_dir vrs
                        \<lparr>manifest = [], output_versions = [], exported_versions = 0\<rparr>)
       (\<lambda>acc. bind_ex (raise_or_return (sort_output (output_versions acc)))
       (\<lambda>outs. bind_ex (call (get_registered_model env model_name))
       (\<lambda>model. bind_ex (call (create_export_info env))
       (\<lambda>meta. bind_ex (print (Exported (exported_versions acc) (length outs) model_name))
       (\<lambda>_. return_ok (fs, manifest acc, make_document ex vrs outs model meta)))))))"

text \<open>\<open>_export_model\<close>: lines 105-107 write the document and return the manifest.\<close>

definition export_model_impl ::
  "'rx model_exporter \<Rightarrow> ('w, 'fs, 'rx) env \<Rightarrow> string \<Rightarrow> string \<Rightarrow>
   ('w, manifest_entry list) action" where
  "export_model_impl ex env model_name output_dir =
     bind_ex (export_model_document ex env model_name output_dir)
       (\<lambda>(fs, m, doc).
          bind_ex (call (write_json_file env fs (path_join output_dir ''model.json'') doc))
            (\<lambda>_. return_ok m))"

text \<open>\<open>export_model\<close>: the outer \<open>try\<close> turns every exception into \<open>False\<close>.\<close>

definition export_model ::
  "'rx model_exporter \<Rightarrow> ('w, 'fs, 'rx) env \<Rightarrow> string \<Rightarrow> string \<Rightarrow> 'w st \<Rightarrow>
   (bool \<times> string) \<times> 'w st" where
  "export_model ex env model_name output_dir s =
     (case export_model_impl ex env model_name output_dir s of
        (Inr m, s') \<Rightarrow> ((True, model_name), s')
      | (Inl e, s') \<Rightarrow> ((False, model_name), s'\<lparr>out := out s' @ [Error e]\<rparr>))"

section \<open>Auxiliary notions for the properties\<close>

text \<open>A version passes both filters of the loop (lines 60-63).\<close>

definition selected :: "'rx model_exporter \<Rightarrow> model_version \<Rightarrow> bool" where
  "selected ex vr =
     (\<not> (length (stages ex) > 0 \<and> \<not> str_lower (current_stage vr) \<in> set (stages ex)) \<and>
      \<not> (length (versions ex) > 0 \<and> \<not> version vr \<in> set (versions ex)))"

text \<open>A collaborator operation that, whenever it raises, raises a \<open>RestException\<close>.\<close>

definition raises_only_rest :: "('w \<Rightarrow> (exn + 'a) \<times> 'w) \<Rightarrow> bool" where
  "raises_only_rest f = (\<forall>w e. fst (f w) = Inl e \<longrightarrow> (\<exists>msg. e = RestException msg))"


text \<open>The three operations of the per-version block raise nothing but \<open>RestException\<close>.\<close>

definition per_version_rest_only :: "('w, 'fs, 'rx) env \<Rightarrow> bool" where
  "per_version_rest_only env =
     ((\<forall>rx rid opath. raises_only_rest (run_exporter_export_run env rx rid opath)) \<and>
      (\<forall>rid. raises_only_rest (get_run env rid)) \<and>
      (\<forall>eid. raises_only_rest (get_experiment env eid)))"




text \<open>Every version that passes the filters carries a run id.\<close>

definition have_run_ids :: "'rx model_exporter \<Rightarrow> model_version list \<Rightarrow> bool" where
  "have_run_ids ex vrs = list_all (\<lambda>vr. run_id vr \<noteq> None) (filter (selected ex) vrs)"


text \<open>\<open>str(v)\<close> of a version identifier: an integer is written in decimal.\<close>

function nat_digits :: "nat \<Rightarrow> string" where
  "nat_digits n =
     (if n < 10 then [''0123456789'' ! n]
      else nat_digits (n div 10) @ [''0123456789'' ! (n mod 10)])"
  by pat_completeness auto
termination
  by (relation "measure (\<lambda>n. n)") auto

definition version_text :: "version_id \<Rightarrow> string" where
  "version_text v =
     (case v of
        VStr t \<Rightarrow> t
      | VInt i \<Rightarrow> (if i < 0 then ''-'' @ nat_digits (nat (- i)) else nat_digits (nat i)))"

text \<open>\<open>sep.join(parts)\<close>.\<close>

fun str_join :: "string \<Rightarrow> string list \<Rightarrow> string" where
  "str_join sep [] = []"
| "str_join sep [p] = p"
| "str_join sep (p # q # ps) = p @ sep @ str_join sep (q # ps)"

section \<open>A small registry for concrete runs of the exporter\<close>

text \<open>A version with a string identifier, as the REST registry returns it.\<close>

definition mv :: "string \<Rightarrow> string \<Rightarrow> string \<Rightarrow> model_version" where
  "mv v stg rid =
     \<lparr>version = VStr v, current_stage = stg, run_id = Some rid, description = '''',
      tags = []\<rparr>"

text \<open>A version with an integer identifier, as a registry backed by a database returns it.\<close>

definition mv_int :: "int \<Rightarrow> string \<Rightarrow> string \<Rightarrow> model_version" where
  "mv_int v stg rid =
     \<lparr>version = VInt v, current_stage = stg, run_id = Some rid, description = '''',
      tags = []\<rparr>"

text \<open>
  Every operation succeeds; the world is the list of paths touched on disk; the registry
  answers every search with \<open>vrs\<close>.
\<close>

definition registry_env :: "model_version list \<Rightarrow> (string list, unit, unit) env" where
  "registry_env vrs =
     \<lparr>get_filesystem = (\<lambda>dir w. (Inr (), w)),
      mkdirs = (\<lambda>fs dir w. (Inr (), w @ [dir])),
      search_model_versions = (\<lambda>q w. (Inr vrs, w)),
      run_exporter_export_run = (\<lambda>rx rid opath w. (Inr (), w @ [opath])),
      get_run = (\<lambda>rid w.
        (Inr \<lparr>info = \<lparr>artifact_uri = ''s3://models/'' @ rid, experiment_id = ''7''\<rparr>\<rparr>, w)),
      get_experiment = (\<lambda>eid w. (Inr \<lparr>name = ''exp-'' @ eid\<rparr>, w)),
      get_registered_model = (\<lambda>n w. (Inr [(''name'', n)], w)),
      create_export_info = (\<lambda>w. (Inr [(''mlflow_version'', ''1.30'')], w)),
      write_json_file = (\<lambda>fs path doc w. (Inr (), w @ [path]))\<rparr>"

text \<open>The same registry, where looking up the run \<open>rid0\<close> raises \<open>e\<close>.\<close>

definition failing_run_env ::
  "model_version list \<Rightarrow> string \<Rightarrow> exn \<Rightarrow> (string list, unit, unit) env" where
  "failing_run_env vrs rid0 e =
     (registry_env vrs)\<lparr>get_run := (\<lambda>rid w.
        if rid = rid0 then (Inl e, w) else get_run (registry_env vrs) rid w)\<rparr>"

text \<open>The same registry, where looking up a run listed in \<open>failures\<close> raises its exception.\<close>

definition failing_runs_env ::
  "model_version list \<Rightarrow> (string \<times> exn) list \<Rightarrow> (string list, unit, unit) env" where
  "failing_runs_env vrs failures =
     (registry_env vrs)\<lparr>get_run := (\<lambda>rid w.
        case map_of failures rid of
          Some e \<Rightarrow> (Inl e, w)
        | None \<Rightarrow> get_run (registry_env vrs) rid w)\<rparr>"

definition two_failures :: "(string \<times> exn) list" where
  "two_failures =
     [(''r1'', RestException ''RESOURCE_DOES_NOT_EXIST: Run r1 not found''),
      (''r2'', OtherException ''API request failed'')]"

definition canonical_stages :: "string list" where
  "canonical_stages = [''none'', ''staging'', ''production'', ''archived'']"

definition plain_exporter :: "unit model_exporter" where
  "plain_exporter = \<lparr>run_exporter = (), stages = [], export_run = True, versions = []\<rparr>"

definition s0 :: "string list st" where
  "s0 = \<lparr>world = [], out = []\<rparr>"

text \<open>The same registry with one operation outside the loop raising \<open>e\<close>.\<close>

definition unwritable_env :: "model_version list \<Rightarrow> exn \<Rightarrow> (string list, unit, unit) env" where
  "unwritable_env vrs e = (registry_env vrs)\<lparr>mkdirs := (\<lambda>fs dir w. (Inl e, w))\<rparr>"

definition unreachable_env :: "model_version list \<Rightarrow> exn \<Rightarrow> (string list, unit, unit) env" where
  "unreachable_env vrs e = (registry_env vrs)\<lparr>search_model_versions := (\<lambda>q w. (Inl e, w))\<rparr>"

definition readonly_env :: "model_version list \<Rightarrow> exn \<Rightarrow> (string list, unit, unit) env" where
  "readonly_env vrs e = (registry_env vrs)\<lparr>write_json_file := (\<lambda>fs path doc w. (Inl e, w))\<rparr>"

definition new_unit_run_exporter :: "bool \<Rightarrow> string list option \<Rightarrow> exn + unit" where
  "new_unit_run_exporter export_source_tags notebook_formats = Inr ()"

definition three_versions :: "model_version list" where
  "three_versions =
     [mv ''1'' ''Production'' ''r1'', mv ''2'' ''Staging'' ''r2'', mv ''3'' ''None'' ''r3'']"

definition staged_versions :: "model_version list" where
  "staged_versions = [mv ''1'' ''Production'' ''r1'', mv ''2'' ''Archived'' ''r2'']"

definition unsorted_versions :: "model_version list" where
  "unsorted_versions = [mv ''2'' ''None'' ''r2'', mv ''10'' ''None'' ''r10'']"

text \<open>A version that was registered without a run.\<close>

definition mv_no_run :: "string \<Rightarrow> string \<Rightarrow> model_version" where
  "mv_no_run v stg =
     \<lparr>version = VStr v, current_stage = stg, run_id = None, description = '''', tags = []\<rparr>"

definition numbered_versions :: "model_version list" where
  "numbered_versions = [mv_int 10 ''None'' ''r10'', mv_int 2 ''None'' ''r2'']"

definition run_missing :: exn where
  "run_missing = RestException ''RESOURCE_DOES_NOT_EXIST: Run r3 not found''"

definition production_exporter :: "unit model_exporter" where
  "production_exporter =
     \<lparr>run_exporter = (), stages = [''production''], export_run = True, versions = []\<rparr>"

definition acc0 :: loop_acc where
  "acc0 = \<lparr>manifest = [], output_versions = [], exported_versions = 0\<rparr>"

text \<open>The record the loop builds for \<open>mv v stg rid\<close> in this registry, and the document.\<close>

definition exported :: "string \<Rightarrow> string \<Rightarrow> string \<Rightarrow> exported_version" where
  "exported v stg rid =
     \<lparr>ev_fields = mv v stg rid, ev_run_artifact_uri = ''s3://models/'' @ rid,
      ev_experiment_name = ''exp-7''\<rparr>"

definition exported_int :: "int \<Rightarrow> string \<Rightarrow> string \<Rightarrow> exported_version" where
  "exported_int v stg rid =
     \<lparr>ev_fields = mv_int v stg rid, ev_run_artifact_uri = ''s3://models/'' @ rid,
      ev_experiment_name = ''exp-7''\<rparr>"

definition registry_document ::
  "unit model_exporter \<Rightarrow> model_version list \<Rightarrow> exported_version list \<Rightarrow> document" where
  "registry_document ex vrs outs =
     make_document ex vrs outs [(''name'', ''M'')] [(''mlflow_version'', ''1.30'')]"

section \<open>Sequencing lemmas\<close>

lemma bind_ex_eq_Inr:
  "bind_ex m f s = (Inr y, s'') \<longleftrightarrow> (\<exists>x s'. m s = (Inr x, s') \<and> f x s' = (Inr y, s''))"
  by (auto simp: bind_ex_def split: prod.splits sum.splits)

lemma bind_ex_eq_Inl:
  "bind_ex m f s = (Inl e, s'') \<longleftrightarrow>
     (m s = (Inl e, s'') \<or> (\<exists>x s'. m s = (Inr x, s') \<and> f x s' = (Inl e, s'')))"
  by (auto simp: bind_ex_def split: prod.splits sum.splits)

lemma call_rest_only:
  "raises_only_rest f \<Longrightarrow> call f s = (Inl e, s') \<Longrightarrow> \<exists>msg. e = RestException msg"
  by (auto simp: raises_only_rest_def call_def split: prod.splits) (metis fst_conv)


section \<open>The replacement of \<open>dbfs:\<close>\<close>

lemma str_replace_none:
  "old \<noteq> [] \<Longrightarrow> \<not> str_contains old a \<Longrightarrow> str_replace old new a = a"
  by (induction a) simp_all

lemma str_replace_at_front:
  assumes "old \<noteq> []"
  shows "str_replace old new (old @ r) = new @ str_replace old new r"
proof -
  from assms obtain c cs where old: "old = c # cs" by (cases old) auto
  have "str_replace old new (c # (cs @ r)) =
          new @ str_replace old new (drop (length old) (c # (cs @ r)))"
    using assms by (subst str_replace.simps(2)) (simp add: old)
  then show ?thesis by (simp add: old)
qed

text \<open>
  When no occurrence of \<open>old\<close> can start before the end of \<open>a\<close>, the leftmost
  occurrence in \<open>a @ old @ r\<close> is the one written out.
\<close>

lemma str_replace_first:
  assumes "old \<noteq> []"
    and no_overlap: "\<And>b. b \<noteq> [] \<Longrightarrow> prefix old (b @ old @ r) \<Longrightarrow> prefix old b"
    and "\<not> str_contains old a"
  shows "str_replace old new (a @ old @ r) = a @ new @ str_replace old new r"
  using assms(3)
proof (induction a)
  case Nil
  show ?case using assms(1) by (simp add: str_replace_at_front)
next
  case (Cons c a)
  from Cons.prems have np: "\<not> prefix old (c # a)" and nc: "\<not> str_contains old a"
    by simp_all
  from np no_overlap [of "c # a"] have "\<not> prefix old (c # (a @ old @ r))"
    by auto
  then have "str_replace old new (c # (a @ old @ r)) = c # str_replace old new (a @ old @ r)"
    using assms(1) by simp
  with Cons.IH [OF nc] show ?case by simp
qed

text \<open>The pattern \<open>dbfs:\<close> cannot overlap itself: its colon is its last character.\<close>

lemma dbfs_no_overlap:
  assumes "prefix ''dbfs:'' (b @ ''dbfs:'' @ r)" and "b \<noteq> []"
  shows "prefix ''dbfs:'' b"
proof (cases "5 \<le> length b")
  case True
  have "prefix b (b @ ''dbfs:'' @ r)" by simp
  with assms(1) True show ?thesis
    using prefix_length_prefix [of "''dbfs:''" "b @ ''dbfs:'' @ r" b] by simp
next
  case False
  from assms(1) have c: "(b @ ''dbfs:'' @ r) ! 4 = CHR '':''"
    by (auto simp: prefix_def)
  from assms(2) have "0 < length b" by simp
  with False have "length b = 1 \<or> length b = 2 \<or> length b = 3 \<or> length b = 4"
    by arith
  then have "(b @ ''dbfs:'' @ r) ! 4 \<noteq> CHR '':''"
    by (elim disjE) (simp_all add: nth_append)
  with c show ?thesis by simp
qed

lemma dbfs_replace_first:
  assumes "\<not> str_contains ''dbfs:'' a"
  shows "str_replace ''dbfs:'' ''/dbfs'' (a @ ''dbfs:'' @ r)
           = a @ ''/dbfs'' @ str_replace ''dbfs:'' ''/dbfs'' r"
proof (rule str_replace_first)
  show "''dbfs:'' \<noteq> []" by simp
  show "\<not> str_contains ''dbfs:'' a" by (rule assms)
  show "prefix ''dbfs:'' b" if "b \<noteq> []" "prefix ''dbfs:'' (b @ ''dbfs:'' @ r)" for b
    using that dbfs_no_overlap by blast
qed

lemma dbfs_replace_join:
  "\<forall>seg \<in> set segs. \<not> str_contains ''dbfs:'' seg \<Longrightarrow>
   str_replace ''dbfs:'' ''/dbfs'' (str_join ''dbfs:'' segs) = str_join ''/dbfs'' segs"
proof (induction segs)
  case Nil
  show ?case by (simp del: str_replace.simps add: str_replace.simps(1))
next
  case (Cons p ps)
  from Cons.prems have p: "\<not> str_contains ''dbfs:'' p"
    and ps: "\<forall>seg \<in> set ps. \<not> str_contains ''dbfs:'' seg"
    by simp_all
  note IH = Cons.IH [OF ps]
  show ?case
  proof (cases ps)
    case Nil
    have "str_replace ''dbfs:'' ''/dbfs'' p = p"
      using p by (intro str_replace_none) simp_all
    with Nil show ?thesis by (simp only: str_join.simps)
  next
    case (Cons q qs)
    have "str_replace ''dbfs:'' ''/dbfs'' (str_join ''dbfs:'' (p # q # qs))
            = str_replace ''dbfs:'' ''/dbfs'' (p @ ''dbfs:'' @ str_join ''dbfs:'' (q # qs))"
      by (simp only: str_join.simps)
    also have "\<dots> = p @ ''/dbfs'' @ str_replace ''dbfs:'' ''/dbfs'' (str_join ''dbfs:'' (q # qs))"
      by (rule dbfs_replace_first [OF p])
    also have "\<dots> = p @ ''/dbfs'' @ str_join ''/dbfs'' (q # qs)"
      using IH by (simp only: Cons)
    also have "\<dots> = str_join ''/dbfs'' (p # q # qs)"
      by (simp only: str_join.simps)
    finally show ?thesis by (simp only: Cons)
  qed
qed

section \<open>What a run of the loop leaves behind\<close>



lemma try_body_Inr:
  assumes "try_body ex env vr rid opath acc s = (Inr acc', s')"
  shows "manifest acc' = manifest acc \<and>
         (\<exists>ev. ev_fields ev = vr \<and> output_versions acc' = output_versions acc @ [ev])"
  using assms
  by (auto simp: try_body_def bind_ex_eq_Inr return_ok_def)

lemma export_version_Inr:
  assumes "export_version ex env output_dir vr acc s = (Inr acc', s')"
  shows "manifest acc' = manifest acc @ [manifest_dct vr] \<and>
         (output_versions acc' = output_versions acc \<or>
          (\<exists>ev. ev_fields ev = vr \<and> output_versions acc' = output_versions acc @ [ev]))"
  using assms
  by (auto simp: export_version_def Let_def
        split: option.splits prod.splits sum.splits exn.splits if_splits
        dest!: try_body_Inr)

lemma export_versions_skip:
  "\<not> selected ex vr \<Longrightarrow>
   export_versions ex env output_dir (vr # vrs) acc s = export_versions ex env output_dir vrs acc s"
  by (auto simp: selected_def)

lemma export_versions_step:
  "selected ex vr \<Longrightarrow>
   export_versions ex env output_dir (vr # vrs) acc s =
     (case export_version ex env output_dir vr acc s of
        (Inl e, s') \<Rightarrow> (Inl e, s')
      | (Inr acc', s') \<Rightarrow> export_versions ex env output_dir vrs acc' s')"
  by (auto simp: selected_def)

text \<open>
  After a loop that was not left by an exception, the manifest has grown by the entries
  of the selected versions, in order, and the output sequence by records of some of
  them, in order.
\<close>

lemma export_versions_Inr:
  "export_versions ex env output_dir vrs acc s = (Inr acc', s') \<Longrightarrow>
   manifest acc' = manifest acc @ map manifest_dct (filter (selected ex) vrs) \<and>
   (\<exists>new. output_versions acc' = output_versions acc @ new \<and>
          subseq (map ev_fields new) (filter (selected ex) vrs))"
proof (induction vrs arbitrary: acc s)
  case Nil
  then show ?case by simp
next
  case (Cons vr vrs)
  show ?case
  proof (cases "selected ex vr")
    case False
    with Cons show ?thesis by (simp add: export_versions_skip del: export_versions.simps)
  next
    case True
    then obtain acc1 s1 where
      step: "export_version ex env output_dir vr acc s = (Inr acc1, s1)" and
      rest: "export_versions ex env output_dir vrs acc1 s1 = (Inr acc', s')"
      using Cons.prems
      by (auto simp: export_versions_step simp del: export_versions.simps
            split: prod.splits sum.splits)
    from Cons.IH [OF rest] obtain new where
      m: "manifest acc' = manifest acc1 @ map manifest_dct (filter (selected ex) vrs)" and
      o: "output_versions acc' = output_versions acc1 @ new" and
      sub: "subseq (map ev_fields new) (filter (selected ex) vrs)"
      by blast
    from export_version_Inr [OF step] have
      m1: "manifest acc1 = manifest acc @ [manifest_dct vr]" and
      o1: "output_versions acc1 = output_versions acc \<or>
          (\<exists>ev. ev_fields ev = vr \<and> output_versions acc1 = output_versions acc @ [ev])"
      by blast+
    from o1 show ?thesis
    proof
      assume "output_versions acc1 = output_versions acc"
      with m m1 o sub True show ?thesis by auto
    next
      assume "\<exists>ev. ev_fields ev = vr \<and> output_versions acc1 = output_versions acc @ [ev]"
      then obtain ev where "ev_fields ev = vr" "output_versions acc1 = output_versions acc @ [ev]"
        by blast
      with m m1 o sub True show ?thesis
        by (intro conjI exI [of _ "ev # new"]) auto
    qed
  qed
qed

lemma export_model_document_Inr:
  assumes "export_model_document ex env model_name output_dir s = (Inr (fs, m, doc), s')"
  shows "\<exists>vrs s1 acc s2 outs model meta.
           list_versions env model_name output_dir s = (Inr (fs, vrs), s1) \<and>
           export_versions ex env output_dir vrs
             \<lparr>manifest = [], output_versions = [], exported_versions = 0\<rparr> s1 = (Inr acc, s2) \<and>
           sort_output (output_versions acc) = Inr outs \<and>
           m = manifest acc \<and>
           doc = make_document ex vrs outs model meta"
  using assms
  apply (simp add: export_model_document_def bind_ex_eq_Inr return_ok_def raise_or_return_def
           split_paired_all)
  apply (elim exE conjE)
  apply (simp add: split_def)
  apply blast
  done

text \<open>A sort that returns has rearranged the list, by its string keys or its integer keys.\<close>

lemma sort_output_Inr:
  assumes "sort_output xs = Inr ys"
  shows "set ys = set xs \<and> length ys = length xs"
  using assms by (auto simp: sort_output_def split: if_splits)


section \<open>Per-version failures that are \<open>RestException\<close>s\<close>

lemma try_body_rest_only:
  assumes "per_version_rest_only env" and "try_body ex env vr rid opath acc s = (Inl e, s')"
  shows "\<exists>msg. e = RestException msg"
proof -
  from assms(1) have
    a: "\<And>t u. call (run_exporter_export_run env (run_exporter ex) rid opath) t = (Inl e, u)
          \<Longrightarrow> \<exists>msg. e = RestException msg" and
    b: "\<And>t u. call (get_run env rid) t = (Inl e, u) \<Longrightarrow> \<exists>msg. e = RestException msg" and
    c: "\<And>eid t u. call (get_experiment env eid) t = (Inl e, u) \<Longrightarrow> \<exists>msg. e = RestException msg"
    by (auto simp: per_version_rest_only_def intro: call_rest_only)
  from assms(2) show ?thesis
    by (auto simp: try_body_def export_run_step_def bind_ex_eq_Inl return_ok_def
          split: if_splits dest: a b c)
qed

lemma export_version_rest_only:
  assumes "per_version_rest_only env" and "run_id vr = Some rid"
  shows "\<exists>acc' s'. export_version ex env output_dir vr acc s = (Inr acc', s')"
proof -
  define opath where "opath = version_opath output_dir rid"
  define s1 where "s1 = s\<lparr>out := out s @ [Exporting (manifest_dct vr)]\<rparr>"
  define acc1 where "acc1 = acc\<lparr>manifest := manifest acc @ [manifest_dct vr]\<rparr>"
  obtain r s2 where t: "try_body ex env vr rid opath acc1 s1 = (r, s2)"
    by (cases "try_body ex env vr rid opath acc1 s1")
  show ?thesis
  proof (cases r)
    case (Inr acc2)
    with t assms(2) show ?thesis
      by (simp add: export_version_def Let_def opath_def s1_def acc1_def)
  next
    case (Inl e)
    with t try_body_rest_only [OF assms(1)] obtain msg where "e = RestException msg"
      by blast
    with t Inl assms(2) show ?thesis
      by (simp add: export_version_def Let_def opath_def s1_def acc1_def)
  qed
qed

lemma export_versions_rest_only:
  assumes "per_version_rest_only env" and "have_run_ids ex vrs"
  shows "\<exists>acc' s'. export_versions ex env output_dir vrs acc s = (Inr acc', s')"
  using assms(2)
proof (induction vrs arbitrary: acc s)
  case Nil
  show ?case by simp
next
  case (Cons vr vrs)
  show ?case
  proof (cases "selected ex vr")
    case False
    with Cons have "have_run_ids ex vrs" by (simp add: have_run_ids_def)
    with Cons.IH False show ?thesis
      by (simp add: export_versions_skip del: export_versions.simps)
  next
    case True
    with Cons.prems obtain rid where rid: "run_id vr = Some rid" and rest: "have_run_ids ex vrs"
      by (auto simp: have_run_ids_def)
    obtain acc1 s1 where "export_version ex env output_dir vr acc s = (Inr acc1, s1)"
      using export_version_rest_only [OF assms(1) rid] by blast
    with Cons.IH [OF rest] True show ?thesis
      by (simp add: export_versions_step del: export_versions.simps)
  qed
qed

section \<open>The assembled document\<close>

lemma length_filter_mono:
  "(\<And>x. x \<in> set xs \<Longrightarrow> P x \<Longrightarrow> Q x) \<Longrightarrow> length (filter P xs) \<le> length (filter Q xs)"
  by (induction xs) auto

lemma document_facts:
  assumes lv: "list_versions env model_name output_dir s = (Inr (fs, vrs), s1)"
    and doc: "export_model_document ex env model_name output_dir s = (Inr (fs', m, doc), s')"
  shows "\<exists>new. sort_output new = Inr (latest_versions doc) \<and>
           subseq (map ev_fields new) (filter (selected ex) vrs) \<and>
           num_src_versions (doc_export_info doc) = length vrs \<and>
           num_dst_versions (doc_export_info doc) = length (latest_versions doc) \<and>
           m = map manifest_dct (filter (selected ex) vrs)"
proof -
  from export_model_document_Inr [OF doc] lv obtain acc s2 outs model meta where
    loop: "export_versions ex env output_dir vrs
             \<lparr>manifest = [], output_versions = [], exported_versions = 0\<rparr> s1 = (Inr acc, s2)" and
    srt: "sort_output (output_versions acc) = Inr outs" and
    m: "m = manifest acc" and
    d: "doc = make_document ex vrs outs model meta"
    by auto
  from export_versions_Inr [OF loop] m d srt show ?thesis
    by (auto simp: make_document_def)
qed

lemma output_records_selected:
  assumes "subseq (map ev_fields new) (filter (selected ex) vrs)"
    and "sort_output new = Inr outs" and "ev \<in> set outs"
  shows "ev_fields ev \<in> set vrs \<and> selected ex (ev_fields ev)"
proof -
  from assms(2,3) have "ev_fields ev \<in> set (map ev_fields new)"
    using sort_output_Inr by fastforce
  with list_emb_set [OF assms(1)] show ?thesis by auto
qed

lemma output_length:
  assumes "subseq (map ev_fields new) (filter (selected ex) vrs)"
    and "sort_output new = Inr outs"
  shows "length outs \<le> length (filter (selected ex) vrs)"
  using list_emb_length [OF assms(1)] sort_output_Inr [OF assms(2)] by simp

section \<open>A version whose run is missing\<close>












section \<open>Properties of the construction\<close>

lemmas run_defs = export_model_def export_model_impl_def export_model_document_def
  list_versions_def bind_ex_def call_def print_def return_ok_def export_version_def
  try_body_def export_run_step_def version_opath_def path_join_def manifest_dct_def
  mv_def sort_output_def make_document_def plain_exporter_def production_exporter_def
  s0_def acc0_def str_lower_def lower_char_def Let_def suffix_to_prefix registry_env_def
  failing_run_env_def unwritable_env_def unreachable_env_def readonly_env_def
  three_versions_def staged_versions_def unsorted_versions_def run_missing_def
  raise_or_return_def mv_int_def numbered_versions_def failing_runs_env_def two_failures_def

lemmas init_defs = normalize_stages_def stage_list_def str_lower_def lower_char_def
  Let_def canonical_stages_def new_unit_run_exporter_def

text \<open>
  Claim C3. When the run exporter has been constructed, \<open>ModelExporter.__init__\<close> raises
  the configuration error exactly when the normalised stage filter and the version
  filter are both non-empty; when at most one of them is non-empty it returns the
  exporter with the two filters stored.
\<close>

theorem C3_stages_and_versions_exclusive:
  assumes "new_run_exporter export_source_tags notebook_formats = Inr rx"
  shows "let stgs = fst (normalize_stages canonical stages_in);
             vers = (case versions_in of None \<Rightarrow> [] | Some vs \<Rightarrow> vs);
             result = fst (ModelExporter_init canonical new_run_exporter export_source_tags
                             notebook_formats stages_in versions_in export_run_in)
         in (stgs \<noteq> [] \<and> vers \<noteq> [] \<longrightarrow> result = Inl (BothStagesAndVersions stgs vers)) \<and>
            (stgs = [] \<or> vers = [] \<longrightarrow>
               result = Inr \<lparr>run_exporter = rx, stages = stgs,
                             export_run = export_run_in, versions = vers\<rparr>)"
  using assms
  by (auto simp: ModelExporter_init_def Let_def split: prod.splits option.splits)

theorem C3_stages_and_versions_exclusive_witness:
  "new_unit_run_exporter False None = Inr () \<and>
   fst (ModelExporter_init canonical_stages new_unit_run_exporter False None
          (Some (StagesStr ''Production,Staging'')) (Some [VStr ''1'']) True)
     = Inl (BothStagesAndVersions [''production'', ''staging''] [VStr ''1'']) \<and>
   fst (ModelExporter_init canonical_stages new_unit_run_exporter False None
          (Some (StagesStr ''Production,Staging'')) None True)
     = Inr \<lparr>run_exporter = (), stages = [''production'', ''staging''],
            export_run = True, versions = []\<rparr> \<and>
   fst (ModelExporter_init canonical_stages new_unit_run_exporter False None
          None (Some [VStr ''1'']) True)
     = Inr \<lparr>run_exporter = (), stages = [], export_run = True, versions = [VStr ''1'']\<rparr>"
proof -
  have h: "new_unit_run_exporter False None = Inr ()"
    by (simp add: new_unit_run_exporter_def)
  show ?thesis
    using h
      C3_stages_and_versions_exclusive [of new_unit_run_exporter False None "()"
        canonical_stages "Some (StagesStr ''Production,Staging'')" "Some [VStr ''1'']" True]
      C3_stages_and_versions_exclusive [of new_unit_run_exporter False None "()"
        canonical_stages "Some (StagesStr ''Production,Staging'')" None True]
      C3_stages_and_versions_exclusive [of new_unit_run_exporter False None "()"
        canonical_stages None "Some [VStr ''1'']" True]
    by (simp add: init_defs)
qed

text \<open>
  Claim C9. The empty string as \<open>stages\<close> argument is split into the one-element list
  \<open>[""]\<close>. This list is a stage filter like any other: together with a non-empty version
  filter the constructor raises the configuration error, without one the exporter is
  built with the filter \<open>[""]\<close>, and the loop then skips every version whose lower-cased
  stage is not the empty string.
\<close>

theorem C9_empty_string_stage_is_active_filter:
  "fst (normalize_stages canonical (Some (StagesStr ''''))) = [''''] \<and>
   (new_run_exporter export_source_tags notebook_formats = Inr rx \<longrightarrow>
      (vs \<noteq> [] \<longrightarrow>
         fst (ModelExporter_init canonical new_run_exporter export_source_tags notebook_formats
                (Some (StagesStr '''')) (Some vs) export_run_in)
           = Inl (BothStagesAndVersions [''''] vs)) \<and>
      fst (ModelExporter_init canonical new_run_exporter export_source_tags notebook_formats
             (Some (StagesStr '''')) None export_run_in)
        = Inr \<lparr>run_exporter = rx, stages = [''''], export_run = export_run_in, versions = []\<rparr>) \<and>
   (stages ex = [''''] \<and> str_lower (current_stage vr) \<noteq> '''' \<longrightarrow>
      \<not> selected ex vr \<and>
      export_versions ex env output_dir (vr # vrs) acc s
        = export_versions ex env output_dir vrs acc s)"
  by (auto simp: ModelExporter_init_def normalize_stages_def stage_list_def str_lower_def
        Let_def selected_def split: prod.splits option.splits)

theorem C9_empty_string_stage_is_active_filter_witness:
  "fst (normalize_stages canonical_stages (Some (StagesStr ''''))) = [''''] \<and>
   new_unit_run_exporter False None = Inr () \<and>
   fst (ModelExporter_init canonical_stages new_unit_run_exporter False None
          (Some (StagesStr '''')) (Some [VStr ''1'']) True)
     = Inl (BothStagesAndVersions [''''] [VStr ''1'']) \<and>
   fst (ModelExporter_init canonical_stages new_unit_run_exporter False None
          (Some (StagesStr '''')) None True)
     = Inr \<lparr>run_exporter = (), stages = [''''], export_run = True, versions = []\<rparr> \<and>
   str_lower (current_stage (mv ''1'' ''Production'' ''r1'')) \<noteq> '''' \<and>
   \<not> selected \<lparr>run_exporter = (), stages = [''''], export_run = True, versions = []\<rparr>
       (mv ''1'' ''Production'' ''r1'') \<and>
   export_versions \<lparr>run_exporter = (), stages = [''''], export_run = True, versions = []\<rparr>
       (registry_env [mv ''1'' ''Production'' ''r1'']) ''/out'' [mv ''1'' ''Production'' ''r1'']
       acc0 s0
     = (Inr acc0, s0)"
  using C9_empty_string_stage_is_active_filter
    [of canonical_stages new_unit_run_exporter False None "()" "[VStr ''1'']" True
        "\<lparr>run_exporter = (), stages = [''''], export_run = True, versions = []\<rparr>"
        "mv ''1'' ''Production'' ''r1''" "registry_env [mv ''1'' ''Production'' ''r1'']"
        "''/out''" "[]" acc0 s0]
  by (simp add: new_unit_run_exporter_def mv_def str_lower_def del: export_versions.simps(2))

section \<open>Properties of the output path\<close>

text \<open>
  Claim C8, as the code has it. \<open>os.path.join\<close> drops the output directory when the
  run id starts with a slash, so the path is rewritten to start with \<open>/dbfs\<close> for every
  output directory starting with \<open>dbfs:\<close> and every run id that does not start with
  a slash.
\<close>

theorem C8_dbfs_output_dir_rewritten:
  assumes "prefix ''dbfs:'' output_dir" and "\<not> prefix ''/'' rid"
  shows "prefix ''/dbfs'' (version_opath output_dir rid)"
proof -
  from assms(1) obtain rest where dir: "output_dir = ''dbfs:'' @ rest"
    by (auto simp: prefix_def)
  from assms(2) have "path_join output_dir rid = ''dbfs:'' @ rest @ rid \<or>
      path_join output_dir rid = ''dbfs:'' @ rest @ ''/'' @ rid"
    by (simp add: path_join_def dir)
  then show ?thesis
    by (auto simp: version_opath_def)
qed

theorem C8_dbfs_output_dir_rewritten_witness:
  "prefix ''dbfs:'' ''dbfs:/out'' \<and> \<not> prefix ''/'' ''r1'' \<and>
   prefix ''/dbfs'' (version_opath ''dbfs:/out'' ''r1'') \<and>
   version_opath ''dbfs:/out'' ''r1'' = ''/dbfs/out/r1''"
  using C8_dbfs_output_dir_rewritten [of "''dbfs:/out''" "''r1''"]
  by (simp add: version_opath_def path_join_def suffix_to_prefix)

text \<open>
  Claim C8 as the specification states it fails: for the run id \<open>/r1\<close> the joined path
  is \<open>/r1\<close>, which contains no \<open>dbfs:\<close> and is left as it is.
\<close>

theorem C8_absolute_run_id_not_rewritten:
  "prefix ''dbfs:'' ''dbfs:/out'' \<and>
   version_opath ''dbfs:/out'' ''/r1'' = ''/r1'' \<and>
   \<not> prefix ''/dbfs'' (version_opath ''dbfs:/out'' ''/r1'')"
  by (simp add: version_opath_def path_join_def)

text \<open>
  Claim C10. The rewrite replaces every occurrence of \<open>dbfs:\<close> in the joined path: when
  the joined path is the segments \<open>segs\<close> separated by \<open>dbfs:\<close>, none of the segments
  containing the pattern, the output path is the same segments separated by \<open>/dbfs\<close>.
  A run id containing \<open>dbfs:\<close> is rewritten under an output directory that does not
  start with it.
\<close>

theorem C10_every_dbfs_occurrence_replaced:
  "((\<forall>seg \<in> set segs. \<not> str_contains ''dbfs:'' seg) \<and>
     path_join output_dir rid = str_join ''dbfs:'' segs \<longrightarrow>
       version_opath output_dir rid = str_join ''/dbfs'' segs) \<and>
   version_opath ''/out'' ''adbfs:b'' = ''/out/a/dbfsb''"
proof
  show "(\<forall>seg \<in> set segs. \<not> str_contains ''dbfs:'' seg) \<and>
     path_join output_dir rid = str_join ''dbfs:'' segs \<longrightarrow>
       version_opath output_dir rid = str_join ''/dbfs'' segs"
    by (simp add: version_opath_def dbfs_replace_join)
  show "version_opath ''/out'' ''adbfs:b'' = ''/out/a/dbfsb''"
    by (simp add: version_opath_def path_join_def suffix_to_prefix)
qed

theorem C10_every_dbfs_occurrence_replaced_witness:
  "\<not> str_contains ''dbfs:'' ''/mnt/'' \<and> \<not> str_contains ''dbfs:'' ''/out/r1_'' \<and>
   \<not> str_contains ''dbfs:'' ''x'' \<and>
   path_join ''/mnt/dbfs:/out'' ''r1_dbfs:x''
     = str_join ''dbfs:'' [''/mnt/'', ''/out/r1_'', ''x''] \<and>
   version_opath ''/mnt/dbfs:/out'' ''r1_dbfs:x'' = ''/mnt//dbfs/out/r1_/dbfsx''"
  using C10_every_dbfs_occurrence_replaced
    [of "[''/mnt/'', ''/out/r1_'', ''x'']" "''/mnt/dbfs:/out''" "''r1_dbfs:x''"]
  by (simp add: path_join_def suffix_to_prefix)

section \<open>Properties of the outer handler\<close>

text \<open>
  Claim C7. \<open>export_model\<close> returns \<open>(False, model_name)\<close> and prints the error whenever
  \<open>_export_model\<close> raises, and \<open>(True, model_name)\<close> when it returns. In particular it
  returns \<open>(False, model_name)\<close> when the output directory cannot be made, when the
  registry cannot be searched and when the final file cannot be written.
\<close>

theorem C7_export_model_failure_result:
  "(export_model_impl ex env model_name output_dir s = (Inl e, s') \<longrightarrow>
      export_model ex env model_name output_dir s
        = ((False, model_name), s'\<lparr>out := out s' @ [Error e]\<rparr>)) \<and>
   (export_model_impl ex env model_name output_dir s = (Inr m, s') \<longrightarrow>
      export_model ex env model_name output_dir s = ((True, model_name), s')) \<and>
   (get_filesystem env output_dir (world s) = (Inr fs, w1) \<and>
    mkdirs env fs output_dir w1 = (Inl e, w2) \<longrightarrow>
      export_model ex env model_name output_dir s
        = ((False, model_name), s\<lparr>world := w2, out := out s @ [Error e]\<rparr>)) \<and>
   (get_filesystem env output_dir (world s) = (Inr fs, w1) \<and>
    mkdirs env fs output_dir w1 = (Inr (), w2) \<and>
    search_model_versions env (''name='' @ [CHR 39] @ model_name @ [CHR 39]) w2 = (Inl e, w3) \<longrightarrow>
      export_model ex env model_name output_dir s
        = ((False, model_name), s\<lparr>world := w3, out := out s @ [Error e]\<rparr>)) \<and>
   (export_model_document ex env model_name output_dir s = (Inr (fs, m, doc), s1) \<and>
    write_json_file env fs (path_join output_dir ''model.json'') doc (world s1) = (Inl e, w2) \<longrightarrow>
      export_model ex env model_name output_dir s
        = ((False, model_name), s1\<lparr>world := w2, out := out s1 @ [Error e]\<rparr>))"
  by (simp add: export_model_def export_model_impl_def export_model_document_def
        list_versions_def bind_ex_def call_def)

theorem C7_export_model_failure_result_witness:
  "export_model plain_exporter (unwritable_env [] (OtherException ''Permission denied''))
       ''M'' ''/out'' s0
     = ((False, ''M''), \<lparr>world = [], out = [Error (OtherException ''Permission denied'')]\<rparr>) \<and>
   export_model plain_exporter (unreachable_env [] (OtherException ''Connection refused''))
       ''M'' ''/out'' s0
     = ((False, ''M''),
        \<lparr>world = [''/out''], out = [Error (OtherException ''Connection refused'')]\<rparr>) \<and>
   export_model plain_exporter (readonly_env [] (OtherException ''Disk full'')) ''M'' ''/out'' s0
     = ((False, ''M''),
        \<lparr>world = [''/out''],
         out = [FoundVersions 0 ''M'', Exported 0 0 ''M'', Error (OtherException ''Disk full'')]\<rparr>) \<and>
   export_model plain_exporter (registry_env []) ''M'' ''/out'' s0
     = ((True, ''M''),
        \<lparr>world = [''/out'', ''/out/model.json''],
         out = [FoundVersions 0 ''M'', Exported 0 0 ''M'']\<rparr>)"
proof -
  have doc: "export_model_document plain_exporter (readonly_env [] (OtherException ''Disk full''))
        ''M'' ''/out'' s0
      = (Inr ((), [], make_document plain_exporter [] [] [(''name'', ''M'')]
                        [(''mlflow_version'', ''1.30'')]),
         \<lparr>world = [''/out''], out = [FoundVersions 0 ''M'', Exported 0 0 ''M'']\<rparr>)"
    by (simp add: export_model_document_def list_versions_def bind_ex_def call_def print_def
          return_ok_def readonly_env_def registry_env_def s0_def sort_output_def
          raise_or_return_def)
  have ok: "export_model_impl plain_exporter (registry_env []) ''M'' ''/out'' s0
      = (Inr [], \<lparr>world = [''/out'', ''/out/model.json''],
                  out = [FoundVersions 0 ''M'', Exported 0 0 ''M'']\<rparr>)"
    by (simp add: export_model_impl_def export_model_document_def list_versions_def bind_ex_def
          call_def print_def return_ok_def registry_env_def s0_def sort_output_def
          raise_or_return_def
          path_join_def suffix_to_prefix)
  show ?thesis
    using
      C7_export_model_failure_result [where ex = plain_exporter
        and env = "unwritable_env [] (OtherException ''Permission denied'')"
        and model_name = "''M''" and output_dir = "''/out''" and s = s0
        and e = "OtherException ''Permission denied''" and fs = "()" and ?w1.0 = "[]"
        and ?w2.0 = "[]"]
      C7_export_model_failure_result [where ex = plain_exporter
        and env = "unreachable_env [] (OtherException ''Connection refused'')"
        and model_name = "''M''" and output_dir = "''/out''" and s = s0
        and e = "OtherException ''Connection refused''" and fs = "()" and ?w1.0 = "[]"
        and ?w2.0 = "[''/out'']" and ?w3.0 = "[''/out'']"]
      C7_export_model_failure_result [where ex = plain_exporter
        and env = "readonly_env [] (OtherException ''Disk full'')"
        and model_name = "''M''" and output_dir = "''/out''" and s = s0
        and e = "OtherException ''Disk full''" and fs = "()" and m = "[]"
        and ?w2.0 = "[''/out'']"
        and doc = "make_document plain_exporter [] [] [(''name'', ''M'')]
                     [(''mlflow_version'', ''1.30'')]"
        and ?s1.0 = "\<lparr>world = [''/out''], out = [FoundVersions 0 ''M'', Exported 0 0 ''M'']\<rparr>"]
      C7_export_model_failure_result [where ex = plain_exporter and env = "registry_env []"
        and model_name = "''M''" and output_dir = "''/out''" and s = s0 and m = "[]"
        and s' = "\<lparr>world = [''/out'', ''/out/model.json''],
                  out = [FoundVersions 0 ''M'', Exported 0 0 ''M'']\<rparr>"]
      doc ok
    by (simp add: unwritable_env_def unreachable_env_def readonly_env_def registry_env_def
          s0_def path_join_def suffix_to_prefix)
qed

section \<open>Concrete runs of the exporter\<close>

lemmas doc_defs = exported_def registry_document_def

lemma staged_list_versions:
  "list_versions (registry_env staged_versions) ''M'' ''/out'' s0
     = (Inr ((), staged_versions), \<lparr>world = [''/out''], out = [FoundVersions 2 ''M'']\<rparr>)"
  by (simp add: list_versions_def bind_ex_def call_def print_def return_ok_def
        registry_env_def s0_def staged_versions_def)

lemma staged_document:
  "export_model_document production_exporter (registry_env staged_versions) ''M'' ''/out'' s0
     = (Inr ((), [manifest_dct (mv ''1'' ''Production'' ''r1'')],
             registry_document production_exporter staged_versions
               [exported ''1'' ''Production'' ''r1'']),
        \<lparr>world = [''/out'', ''/out/r1''],
         out = [FoundVersions 2 ''M'',
                Exporting (manifest_dct (mv ''1'' ''Production'' ''r1'')),
                Exported 1 1 ''M'']\<rparr>)"
  by (simp add: run_defs doc_defs)

lemma missing_list_versions:
  "list_versions (failing_run_env three_versions ''r3'' run_missing) ''M'' ''/out'' s0
     = (Inr ((), three_versions), \<lparr>world = [''/out''], out = [FoundVersions 3 ''M'']\<rparr>)"
  by (simp add: list_versions_def bind_ex_def call_def print_def return_ok_def
        failing_run_env_def registry_env_def s0_def three_versions_def)

lemma missing_document:
  "export_model_document plain_exporter (failing_run_env three_versions ''r3'' run_missing)
       ''M'' ''/out'' s0
     = (Inr ((), map manifest_dct three_versions,
             registry_document plain_exporter three_versions
               [exported ''1'' ''Production'' ''r1'', exported ''2'' ''Staging'' ''r2'']),
        \<lparr>world = [''/out'', ''/out/r1'', ''/out/r2'', ''/out/r3''],
         out = [FoundVersions 3 ''M'',
                Exporting (manifest_dct (mv ''1'' ''Production'' ''r1'')),
                Exporting (manifest_dct (mv ''2'' ''Staging'' ''r2'')),
                Exporting (manifest_dct (mv ''3'' ''None'' ''r3'')),
                WarningRunMissing (VStr ''3'') run_missing,
                Exported 2 2 ''M'']\<rparr>)"
  by (simp add: run_defs doc_defs)


lemma unsorted_document:
  "export_model_document plain_exporter (registry_env unsorted_versions) ''M'' ''/out'' s0
     = (Inr ((), map manifest_dct unsorted_versions,
             registry_document plain_exporter unsorted_versions
               [exported ''10'' ''None'' ''r10'', exported ''2'' ''None'' ''r2'']),
        \<lparr>world = [''/out'', ''/out/r2'', ''/out/r10''],
         out = [FoundVersions 2 ''M'',
                Exporting (manifest_dct (mv ''2'' ''None'' ''r2'')),
                Exporting (manifest_dct (mv ''10'' ''None'' ''r10'')),
                Exported 2 2 ''M'']\<rparr>)"
  by (simp add: run_defs doc_defs)

lemma failing_run_env_rest_only:
  "per_version_rest_only (failing_run_env vrs rid (RestException msg))"
  by (simp add: per_version_rest_only_def raises_only_rest_def failing_run_env_def
        registry_env_def)




section \<open>Properties of the per-version failure handling\<close>

text \<open>
  Claim C1, as the code has it. The handler of the per-version block catches
  \<open>RestException\<close> only. When the block raises a \<open>RestException\<close> whose text does not
  contain \<open>RESOURCE_DOES_NOT_EXIST: Run\<close>, the traceback is printed, the version stays in
  the manifest and the loop goes on with the next version. When the operations of the
  block raise nothing but \<open>RestException\<close>s and every selected version carries a run id
  (so that no failure is of another class), the loop runs to its end for every list of
  versions and the manifest holds every selected version. An exception of another class
  leaves the loop, whether the block raises it or, for a version without a run id, the
  path computation before the block.
\<close>

theorem C1_rest_exception_logged_loop_continues:
  "(selected ex vr \<and> run_id vr = Some rid \<and>
    try_body ex env vr rid (version_opath output_dir rid)
      (acc\<lparr>manifest := manifest acc @ [manifest_dct vr]\<rparr>)
      (s\<lparr>out := out s @ [Exporting (manifest_dct vr)]\<rparr>) = (Inl (RestException msg), s2) \<and>
    \<not> str_contains ''RESOURCE_DOES_NOT_EXIST: Run'' msg \<longrightarrow>
      export_versions ex env output_dir (vr # vrs) acc s =
        export_versions ex env output_dir vrs
          (acc\<lparr>manifest := manifest acc @ [manifest_dct vr]\<rparr>)
          (s2\<lparr>out := out s2 @ [Traceback (RestException msg)]\<rparr>)) \<and>
   (per_version_rest_only env \<and> have_run_ids ex vrs \<longrightarrow>
      (\<exists>acc' s'. export_versions ex env output_dir vrs acc s = (Inr acc', s') \<and>
         manifest acc' = manifest acc @ map manifest_dct (filter (selected ex) vrs))) \<and>
   (selected ex vr \<and> run_id vr = Some rid \<and>
    try_body ex env vr rid (version_opath output_dir rid)
      (acc\<lparr>manifest := manifest acc @ [manifest_dct vr]\<rparr>)
      (s\<lparr>out := out s @ [Exporting (manifest_dct vr)]\<rparr>) = (Inl e, s2) \<and>
    (\<forall>m. e \<noteq> RestException m) \<longrightarrow>
      export_versions ex env output_dir (vr # vrs) acc s = (Inl e, s2)) \<and>
   (selected ex vr \<and> run_id vr = None \<longrightarrow>
      export_versions ex env output_dir (vr # vrs) acc s
        = (Inl (OtherException ''TypeError''), s))"
proof (intro conjI impI)
  assume "selected ex vr \<and> run_id vr = None"
  then show "export_versions ex env output_dir (vr # vrs) acc s
        = (Inl (OtherException ''TypeError''), s)"
    by (simp add: export_versions_step export_version_def del: export_versions.simps)
next
  assume "per_version_rest_only env \<and> have_run_ids ex vrs"
  then obtain acc' s' where r: "export_versions ex env output_dir vrs acc s = (Inr acc', s')"
    using export_versions_rest_only by blast
  with export_versions_Inr [OF r]
  show "\<exists>acc' s'. export_versions ex env output_dir vrs acc s = (Inr acc', s') \<and>
         manifest acc' = manifest acc @ map manifest_dct (filter (selected ex) vrs)"
    by blast
next
  assume "selected ex vr \<and> run_id vr = Some rid \<and>
    try_body ex env vr rid (version_opath output_dir rid)
      (acc\<lparr>manifest := manifest acc @ [manifest_dct vr]\<rparr>)
      (s\<lparr>out := out s @ [Exporting (manifest_dct vr)]\<rparr>) = (Inl (RestException msg), s2) \<and>
    \<not> str_contains ''RESOURCE_DOES_NOT_EXIST: Run'' msg"
  then show "export_versions ex env output_dir (vr # vrs) acc s =
        export_versions ex env output_dir vrs
          (acc\<lparr>manifest := manifest acc @ [manifest_dct vr]\<rparr>)
          (s2\<lparr>out := out s2 @ [Traceback (RestException msg)]\<rparr>)"
    by (simp add: export_versions_step export_version_def Let_def del: export_versions.simps)
next
  assume "selected ex vr \<and> run_id vr = Some rid \<and>
    try_body ex env vr rid (version_opath output_dir rid)
      (acc\<lparr>manifest := manifest acc @ [manifest_dct vr]\<rparr>)
      (s\<lparr>out := out s @ [Exporting (manifest_dct vr)]\<rparr>) = (Inl e, s2) \<and>
    (\<forall>m. e \<noteq> RestException m)"
  then show "export_versions ex env output_dir (vr # vrs) acc s = (Inl e, s2)"
    by (cases e)
      (simp_all add: export_versions_step export_version_def Let_def del: export_versions.simps)
qed

theorem C1_rest_exception_logged_loop_continues_witness:
  "selected plain_exporter (mv ''1'' ''Production'' ''r1'') \<and>
   try_body plain_exporter
       (failing_run_env staged_versions ''r1'' (RestException ''INTERNAL_ERROR: backend down''))
       (mv ''1'' ''Production'' ''r1'') ''r1'' ''/out/r1''
       (acc0\<lparr>manifest := [manifest_dct (mv ''1'' ''Production'' ''r1'')]\<rparr>)
       (s0\<lparr>out := [Exporting (manifest_dct (mv ''1'' ''Production'' ''r1''))]\<rparr>)
     = (Inl (RestException ''INTERNAL_ERROR: backend down''),
        \<lparr>world = [''/out/r1''],
         out = [Exporting (manifest_dct (mv ''1'' ''Production'' ''r1''))]\<rparr>) \<and>
   \<not> str_contains ''RESOURCE_DOES_NOT_EXIST: Run'' ''INTERNAL_ERROR: backend down'' \<and>
   run_id (mv ''1'' ''Production'' ''r1'') = Some ''r1'' \<and>
   per_version_rest_only
     (failing_run_env staged_versions ''r1'' (RestException ''INTERNAL_ERROR: backend down'')) \<and>
   have_run_ids plain_exporter staged_versions \<and>
   export_versions plain_exporter
       (failing_run_env staged_versions ''r1'' (RestException ''INTERNAL_ERROR: backend down''))
       ''/out'' staged_versions acc0 s0
     = (Inr \<lparr>manifest = [manifest_dct (mv ''1'' ''Production'' ''r1''),
                           manifest_dct (mv ''2'' ''Archived'' ''r2'')],
             output_versions =
               [\<lparr>ev_fields = mv ''2'' ''Archived'' ''r2'',
                 ev_run_artifact_uri = ''s3://models/r2'', ev_experiment_name = ''exp-7''\<rparr>],
             exported_versions = 1\<rparr>,
        \<lparr>world = [''/out/r1'', ''/out/r2''],
         out = [Exporting (manifest_dct (mv ''1'' ''Production'' ''r1'')),
                Traceback (RestException ''INTERNAL_ERROR: backend down''),
                Exporting (manifest_dct (mv ''2'' ''Archived'' ''r2''))]\<rparr>) \<and>
   try_body plain_exporter
       (failing_run_env staged_versions ''r1'' (OtherException ''API request failed''))
       (mv ''1'' ''Production'' ''r1'') ''r1'' ''/out/r1''
       (acc0\<lparr>manifest := [manifest_dct (mv ''1'' ''Production'' ''r1'')]\<rparr>)
       (s0\<lparr>out := [Exporting (manifest_dct (mv ''1'' ''Production'' ''r1''))]\<rparr>)
     = (Inl (OtherException ''API request failed''),
        \<lparr>world = [''/out/r1''],
         out = [Exporting (manifest_dct (mv ''1'' ''Production'' ''r1''))]\<rparr>) \<and>
   export_versions plain_exporter
       (failing_run_env staged_versions ''r1'' (OtherException ''API request failed''))
       ''/out'' staged_versions acc0 s0
     = (Inl (OtherException ''API request failed''),
        \<lparr>world = [''/out/r1''],
         out = [Exporting (manifest_dct (mv ''1'' ''Production'' ''r1''))]\<rparr>) \<and>
   selected plain_exporter (mv_no_run ''4'' ''None'') \<and>
   run_id (mv_no_run ''4'' ''None'') = None \<and>
   export_versions plain_exporter (registry_env []) ''/out''
       [mv_no_run ''4'' ''None'', mv ''2'' ''Archived'' ''r2''] acc0 s0
     = (Inl (OtherException ''TypeError''), s0)"
  using
    C1_rest_exception_logged_loop_continues [where ex = plain_exporter
      and vr = "mv_no_run ''4'' ''None''" and env = "registry_env []"
      and output_dir = "''/out''" and acc = acc0 and s = s0
      and vrs = "[mv ''2'' ''Archived'' ''r2'']"]
    C1_rest_exception_logged_loop_continues [where ex = plain_exporter
      and vr = "mv ''1'' ''Production'' ''r1''"
      and env = "failing_run_env staged_versions ''r1'' (OtherException ''API request failed'')"
      and output_dir = "''/out''" and acc = acc0 and s = s0 and rid = "''r1''"
      and e = "OtherException ''API request failed''"
      and ?s2.0 = "\<lparr>world = [''/out/r1''],
                    out = [Exporting (manifest_dct (mv ''1'' ''Production'' ''r1''))]\<rparr>"
      and vrs = "[mv ''2'' ''Archived'' ''r2'']"]
    C1_rest_exception_logged_loop_continues [where ex = plain_exporter
      and vr = "mv ''1'' ''Production'' ''r1''"
      and env = "failing_run_env staged_versions ''r1''
                   (RestException ''INTERNAL_ERROR: backend down'')"
      and output_dir = "''/out''" and acc = acc0 and s = s0 and rid = "''r1''"
      and msg = "''INTERNAL_ERROR: backend down''"
      and ?s2.0 = "\<lparr>world = [''/out/r1''],
                    out = [Exporting (manifest_dct (mv ''1'' ''Production'' ''r1''))]\<rparr>"
      and vrs = "[mv ''2'' ''Archived'' ''r2'']"]
    failing_run_env_rest_only [of staged_versions "''r1''" "''INTERNAL_ERROR: backend down''"]
  by (simp add: run_defs selected_def have_run_ids_def mv_no_run_def)

text \<open>
  Claim C1 as the specification states it fails. Looking up the run of version 1
  raises an exception that is not a \<open>RestException\<close>: nothing is printed for it in the
  loop, version 2 is never reached, and \<open>export_model\<close> returns \<open>False\<close>.
\<close>

theorem C1_other_exception_aborts_export:
  "export_model plain_exporter
       (failing_run_env staged_versions ''r1'' (OtherException ''API request failed''))
       ''M'' ''/out'' s0
     = ((False, ''M''),
        \<lparr>world = [''/out'', ''/out/r1''],
         out = [FoundVersions 2 ''M'',
                Exporting (manifest_dct (mv ''1'' ''Production'' ''r1'')),
                Error (OtherException ''API request failed'')]\<rparr>)"
  by (simp add: run_defs)




section \<open>Properties of the written document\<close>

text \<open>
  Claim C4. With a non-empty stage filter, every record of the output sequence belongs
  to a version whose lower-cased stage is in the filter, and \<open>num_dst_versions\<close>, the
  length of the output sequence, is at most the number of such versions in the
  registry's response. The filter the constructor stores is the lower-cased argument, so
  the comparison ignores case. For the versions 1 (Production) and 2 (Archived) and the
  filter \<open>production\<close> the output sequence is version 1 alone, with
  \<open>num_src_versions = 2\<close> and \<open>num_dst_versions = 1\<close>.
\<close>

theorem C4_stage_filter_excludes_versions:
  "(list_versions env model_name output_dir s = (Inr (fs, vrs), s1) \<and>
    export_model_document ex env model_name output_dir s = (Inr (fs', m, doc), s') \<and>
    stages ex \<noteq> [] \<longrightarrow>
      (\<forall>ev \<in> set (latest_versions doc). str_lower (current_stage (ev_fields ev)) \<in> set (stages ex)) \<and>
      num_dst_versions (doc_export_info doc) = length (latest_versions doc) \<and>
      num_dst_versions (doc_export_info doc)
        \<le> length (filter (\<lambda>vr. str_lower (current_stage vr) \<in> set (stages ex)) vrs) \<and>
      num_src_versions (doc_export_info doc) = length vrs) \<and>
   (ModelExporter_init canonical new_run_exporter est nf (Some a) versions_in er = (Inr ex', warnings) \<longrightarrow>
      (str_lower (current_stage vr) \<in> set (stages ex')
         \<longleftrightarrow> (\<exists>f \<in> set (stage_list a). str_lower (current_stage vr) = str_lower f))) \<and>
   (case export_model_document production_exporter (registry_env staged_versions)
           ''M'' ''/out'' s0 of
      (Inl e, s') \<Rightarrow> False
    | (Inr (fs, m, doc), s') \<Rightarrow>
        map ev_fields (latest_versions doc) = [mv ''1'' ''Production'' ''r1''] \<and>
        num_src_versions (doc_export_info doc) = 2 \<and>
        num_dst_versions (doc_export_info doc) = 1)"
proof (intro conjI impI)
  assume a: "list_versions env model_name output_dir s = (Inr (fs, vrs), s1) \<and>
    export_model_document ex env model_name output_dir s = (Inr (fs', m, doc), s') \<and>
    stages ex \<noteq> []"
  then have ne: "stages ex \<noteq> []" by simp
  from a document_facts [of env model_name output_dir s fs vrs s1 ex fs' m doc s'] obtain new where
    l: "sort_output new = Inr (latest_versions doc)" and
    sub: "subseq (map ev_fields new) (filter (selected ex) vrs)" and
    n: "num_src_versions (doc_export_info doc) = length vrs"
       "num_dst_versions (doc_export_info doc) = length (latest_versions doc)"
    by blast
  have sel: "str_lower (current_stage vr) \<in> set (stages ex)" if "selected ex vr" for vr
    using that ne by (auto simp: selected_def)
  show "\<forall>ev \<in> set (latest_versions doc). str_lower (current_stage (ev_fields ev)) \<in> set (stages ex)"
    using output_records_selected [OF sub l] sel by auto
  show "num_dst_versions (doc_export_info doc) = length (latest_versions doc)" by (rule n)
  show "num_src_versions (doc_export_info doc) = length vrs" by (rule n)
  have "length (filter (selected ex) vrs)
          \<le> length (filter (\<lambda>vr. str_lower (current_stage vr) \<in> set (stages ex)) vrs)"
    by (rule length_filter_mono) (rule sel)
  with output_length [OF sub l] n
  show "num_dst_versions (doc_export_info doc)
        \<le> length (filter (\<lambda>vr. str_lower (current_stage vr) \<in> set (stages ex)) vrs)"
    by simp
next
  assume "ModelExporter_init canonical new_run_exporter est nf (Some a) versions_in er = (Inr ex', warnings)"
  then have "stages ex' = map str_lower (stage_list a)"
    by (auto simp: ModelExporter_init_def normalize_stages_def Let_def
          split: sum.splits prod.splits if_splits)
  then show "str_lower (current_stage vr) \<in> set (stages ex')
         \<longleftrightarrow> (\<exists>f \<in> set (stage_list a). str_lower (current_stage vr) = str_lower f)"
    by auto
next
  show "case export_model_document production_exporter (registry_env staged_versions)
           ''M'' ''/out'' s0 of
      (Inl e, s') \<Rightarrow> False
    | (Inr (fs, m, doc), s') \<Rightarrow>
        map ev_fields (latest_versions doc) = [mv ''1'' ''Production'' ''r1''] \<and>
        num_src_versions (doc_export_info doc) = 2 \<and>
        num_dst_versions (doc_export_info doc) = 1"
    by (simp add: staged_document) (simp add: doc_defs make_document_def staged_versions_def)
qed

theorem C4_stage_filter_excludes_versions_witness:
  "list_versions (registry_env staged_versions) ''M'' ''/out'' s0
     = (Inr ((), staged_versions), \<lparr>world = [''/out''], out = [FoundVersions 2 ''M'']\<rparr>) \<and>
   fst (export_model_document production_exporter (registry_env staged_versions)
          ''M'' ''/out'' s0)
     = Inr ((), [manifest_dct (mv ''1'' ''Production'' ''r1'')],
            registry_document production_exporter staged_versions
              [exported ''1'' ''Production'' ''r1'']) \<and>
   stages production_exporter \<noteq> [] \<and>
   map (\<lambda>ev. str_lower (current_stage (ev_fields ev)))
       (latest_versions (registry_document production_exporter staged_versions
                           [exported ''1'' ''Production'' ''r1'']))
     = [''production''] \<and>
   num_dst_versions (doc_export_info (registry_document production_exporter staged_versions
                                        [exported ''1'' ''Production'' ''r1''])) = 1 \<and>
   length (filter (\<lambda>vr. str_lower (current_stage vr) \<in> set (stages production_exporter))
             staged_versions) = 1 \<and>
   num_src_versions (doc_export_info (registry_document production_exporter staged_versions
                                        [exported ''1'' ''Production'' ''r1''])) = 2 \<and>
   ModelExporter_init canonical_stages new_unit_run_exporter False None
       (Some (StagesList [''PRODUCTION''])) None True
     = (Inr production_exporter, []) \<and>
   str_lower (current_stage (mv ''1'' ''Production'' ''r1'')) \<in> set (stages production_exporter) \<and>
   str_lower (current_stage (mv ''1'' ''Production'' ''r1'')) = str_lower ''PRODUCTION''"
proof -
  have init: "ModelExporter_init canonical_stages new_unit_run_exporter False None
       (Some (StagesList [''PRODUCTION''])) None True
     = (Inr production_exporter, [])"
    by (simp add: ModelExporter_init_def init_defs production_exporter_def)
  show ?thesis
    using
      C4_stage_filter_excludes_versions [where env = "registry_env staged_versions"
        and model_name = "''M''" and output_dir = "''/out''" and s = s0 and fs = "()"
        and vrs = staged_versions
        and ?s1.0 = "\<lparr>world = [''/out''], out = [FoundVersions 2 ''M'']\<rparr>"
        and ex = production_exporter and fs' = "()"
        and m = "[manifest_dct (mv ''1'' ''Production'' ''r1'')]"
        and doc = "registry_document production_exporter staged_versions
                     [exported ''1'' ''Production'' ''r1'']"
        and s' = "\<lparr>world = [''/out'', ''/out/r1''],
                   out = [FoundVersions 2 ''M'',
                          Exporting (manifest_dct (mv ''1'' ''Production'' ''r1'')),
                          Exported 1 1 ''M'']\<rparr>"
        and canonical = canonical_stages and new_run_exporter = new_unit_run_exporter
        and est = False and nf = None and a = "StagesList [''PRODUCTION'']"
        and versions_in = None and er = True and ex' = production_exporter
        and warnings = "[]" and vr = "mv ''1'' ''Production'' ''r1''"]
      staged_list_versions staged_document init
    by (simp add: doc_defs make_document_def production_exporter_def staged_versions_def
          mv_def str_lower_def lower_char_def stage_list_def)
qed

text \<open>
  Claim C5. In the document that is written, \<open>num_dst_versions\<close> is at most
  \<open>num_src_versions\<close>, the number of versions the registry returned, and every record
  of the output sequence carries the version identifier of one of those versions.
\<close>

theorem C5_counters_and_output_from_registry:
  assumes "list_versions env model_name output_dir s = (Inr (fs, vrs), s1)"
    and "export_model_document ex env model_name output_dir s = (Inr (fs', m, doc), s')"
  shows "num_dst_versions (doc_export_info doc) \<le> num_src_versions (doc_export_info doc) \<and>
         num_src_versions (doc_export_info doc) = length vrs \<and>
         num_dst_versions (doc_export_info doc) = length (latest_versions doc) \<and>
         (\<forall>ev \<in> set (latest_versions doc). \<exists>vr \<in> set vrs. version (ev_fields ev) = version vr)"
proof -
  from document_facts [OF assms] obtain new where
    l: "sort_output new = Inr (latest_versions doc)" and
    sub: "subseq (map ev_fields new) (filter (selected ex) vrs)" and
    n: "num_src_versions (doc_export_info doc) = length vrs"
       "num_dst_versions (doc_export_info doc) = length (latest_versions doc)"
    by blast
  have "length (latest_versions doc) \<le> length vrs"
    using output_length [OF sub l] length_filter_le [of "selected ex" vrs] by linarith
  moreover have "\<exists>vr \<in> set vrs. version (ev_fields ev) = version vr"
    if "ev \<in> set (latest_versions doc)" for ev
    using output_records_selected [OF sub l that] by blast
  ultimately show ?thesis using n by simp
qed

theorem C5_counters_and_output_from_registry_witness:
  "list_versions (failing_run_env three_versions ''r3'' run_missing) ''M'' ''/out'' s0
     = (Inr ((), three_versions), \<lparr>world = [''/out''], out = [FoundVersions 3 ''M'']\<rparr>) \<and>
   fst (export_model_document plain_exporter (failing_run_env three_versions ''r3'' run_missing)
          ''M'' ''/out'' s0)
     = Inr ((), map manifest_dct three_versions,
            registry_document plain_exporter three_versions
              [exported ''1'' ''Production'' ''r1'', exported ''2'' ''Staging'' ''r2'']) \<and>
   num_dst_versions (doc_export_info (registry_document plain_exporter three_versions
      [exported ''1'' ''Production'' ''r1'', exported ''2'' ''Staging'' ''r2''])) = 2 \<and>
   num_src_versions (doc_export_info (registry_document plain_exporter three_versions
      [exported ''1'' ''Production'' ''r1'', exported ''2'' ''Staging'' ''r2''])) = 3 \<and>
   map (\<lambda>ev. version (ev_fields ev))
       (latest_versions (registry_document plain_exporter three_versions
          [exported ''1'' ''Production'' ''r1'', exported ''2'' ''Staging'' ''r2'']))
     = [VStr ''1'', VStr ''2''] \<and>
   map version three_versions = [VStr ''1'', VStr ''2'', VStr ''3'']"
  using C5_counters_and_output_from_registry [OF missing_list_versions missing_document]
    missing_list_versions missing_document
  by (simp add: doc_defs make_document_def three_versions_def mv_def)

lemma numbered_document:
  "export_model_document plain_exporter (registry_env numbered_versions) ''M'' ''/out'' s0
     = (Inr ((), map manifest_dct numbered_versions,
             registry_document plain_exporter numbered_versions
               [exported_int 2 ''None'' ''r2'', exported_int 10 ''None'' ''r10'']),
        \<lparr>world = [''/out'', ''/out/r10'', ''/out/r2''],
         out = [FoundVersions 2 ''M'',
                Exporting (manifest_dct (mv_int 10 ''None'' ''r10'')),
                Exporting (manifest_dct (mv_int 2 ''None'' ''r2'')),
                Exported 2 2 ''M'']\<rparr>)"
  by (simp add: run_defs doc_defs exported_int_def)

text \<open>A sort that returns has put the keys of its kind in ascending order.\<close>

lemma sort_output_sorted:
  assumes "sort_output xs = Inr ys"
  shows "(list_all (\<lambda>x. is_str (version (ev_fields x))) ys \<longrightarrow>
            sorted (map (\<lambda>x. str_key (version (ev_fields x))) ys)) \<and>
         (list_all (\<lambda>x. is_int (version (ev_fields x))) ys \<longrightarrow>
            sorted (map (\<lambda>x. int_key (version (ev_fields x))) ys)) \<and>
         (list_all (\<lambda>x. is_str (version (ev_fields x))) ys \<or>
          list_all (\<lambda>x. is_int (version (ev_fields x))) ys)"
proof (cases "list_all (\<lambda>x. is_str (version (ev_fields x))) xs")
  case True
  with assms have ys: "ys = sort_key (\<lambda>x. str_key (version (ev_fields x))) xs"
    by (simp add: sort_output_def)
  with True have str: "list_all (\<lambda>x. is_str (version (ev_fields x))) ys"
    by (simp add: list_all_iff)
  have "ys = []" if "list_all (\<lambda>x. is_int (version (ev_fields x))) ys"
  proof (cases ys)
    case Nil
    then show ?thesis .
  next
    case (Cons y list)
    with str that have "is_str (version (ev_fields y))" "is_int (version (ev_fields y))"
      by simp_all
    then show ?thesis by (cases "version (ev_fields y)") simp_all
  qed
  with str ys show ?thesis by auto
next
  case False
  with assms have int: "list_all (\<lambda>x. is_int (version (ev_fields x))) xs"
    and ys: "ys = sort_key (\<lambda>x. int_key (version (ev_fields x))) xs"
    by (simp_all add: sort_output_def split: if_splits)
  from False ys have "\<not> list_all (\<lambda>x. is_str (version (ev_fields x))) ys"
    by (simp add: list_all_iff)
  moreover from int ys have "list_all (\<lambda>x. is_int (version (ev_fields x))) ys"
    by (simp add: list_all_iff)
  ultimately show ?thesis using ys by auto
qed

text \<open>
  Claim C6, as the code has it. The sort compares the identifiers as the registry
  returned them. When they are strings, the output sequence of the document is in
  ascending lexicographic order of the strings: of two records the earlier one has the
  smaller or equal version string, so \<open>10\<close> comes before \<open>2\<close>. When they are integers,
  the order is the numeric one. A document is written only for identifiers of one kind.
\<close>

theorem C6_output_sorted_by_identifier_kind:
  "(export_model_document ex env model_name output_dir s = (Inr (fs, m, doc), s') \<longrightarrow>
      (list_all (\<lambda>x. is_str (version (ev_fields x))) (latest_versions doc) \<longrightarrow>
         (\<forall>i j. i < j \<and> j < length (latest_versions doc) \<longrightarrow>
            str_key (version (ev_fields (latest_versions doc ! i)))
              \<le> str_key (version (ev_fields (latest_versions doc ! j))))) \<and>
      (list_all (\<lambda>x. is_int (version (ev_fields x))) (latest_versions doc) \<longrightarrow>
         (\<forall>i j. i < j \<and> j < length (latest_versions doc) \<longrightarrow>
            int_key (version (ev_fields (latest_versions doc ! i)))
              \<le> int_key (version (ev_fields (latest_versions doc ! j))))) \<and>
      (list_all (\<lambda>x. is_str (version (ev_fields x))) (latest_versions doc) \<or>
       list_all (\<lambda>x. is_int (version (ev_fields x))) (latest_versions doc))) \<and>
   (''10'' :: string) < ''2''"
proof (intro conjI impI)
  show "(''10'' :: string) < ''2''" by simp
next
  assume doc: "export_model_document ex env model_name output_dir s = (Inr (fs, m, doc), s')"
  from export_model_document_Inr [OF doc] obtain new where
    srt: "sort_output new = Inr (latest_versions doc)"
    by (auto simp: make_document_def)
  note facts = sort_output_sorted [OF srt]
  show "list_all (\<lambda>x. is_str (version (ev_fields x))) (latest_versions doc) \<or>
       list_all (\<lambda>x. is_int (version (ev_fields x))) (latest_versions doc)"
    using facts by blast
  show "\<forall>i j. i < j \<and> j < length (latest_versions doc) \<longrightarrow>
            str_key (version (ev_fields (latest_versions doc ! i)))
              \<le> str_key (version (ev_fields (latest_versions doc ! j)))"
    if "list_all (\<lambda>x. is_str (version (ev_fields x))) (latest_versions doc)"
  proof (intro allI impI)
    fix i j
    assume ij: "i < j \<and> j < length (latest_versions doc)"
    from facts that have
      "sorted (map (\<lambda>x. str_key (version (ev_fields x))) (latest_versions doc))"
      by blast
    with ij show "str_key (version (ev_fields (latest_versions doc ! i)))
              \<le> str_key (version (ev_fields (latest_versions doc ! j)))"
      by (auto simp: sorted_iff_nth_mono_less dest!: spec [of _ i] spec [of _ j])
  qed
  show "\<forall>i j. i < j \<and> j < length (latest_versions doc) \<longrightarrow>
            int_key (version (ev_fields (latest_versions doc ! i)))
              \<le> int_key (version (ev_fields (latest_versions doc ! j)))"
    if "list_all (\<lambda>x. is_int (version (ev_fields x))) (latest_versions doc)"
  proof (intro allI impI)
    fix i j
    assume ij: "i < j \<and> j < length (latest_versions doc)"
    from facts that have
      "sorted (map (\<lambda>x. int_key (version (ev_fields x))) (latest_versions doc))"
      by blast
    with ij show "int_key (version (ev_fields (latest_versions doc ! i)))
              \<le> int_key (version (ev_fields (latest_versions doc ! j)))"
      by (auto simp: sorted_iff_nth_mono_less dest!: spec [of _ i] spec [of _ j])
  qed
qed

theorem C6_output_sorted_by_identifier_kind_witness:
  "fst (export_model_document plain_exporter (registry_env unsorted_versions) ''M'' ''/out'' s0)
     = Inr ((), map manifest_dct unsorted_versions,
            registry_document plain_exporter unsorted_versions
              [exported ''10'' ''None'' ''r10'', exported ''2'' ''None'' ''r2'']) \<and>
   map version unsorted_versions = [VStr ''2'', VStr ''10''] \<and>
   list_all (\<lambda>x. is_str (version (ev_fields x)))
     (latest_versions (registry_document plain_exporter unsorted_versions
        [exported ''10'' ''None'' ''r10'', exported ''2'' ''None'' ''r2''])) \<and>
   str_key (version (ev_fields (latest_versions
        (registry_document plain_exporter unsorted_versions
           [exported ''10'' ''None'' ''r10'', exported ''2'' ''None'' ''r2'']) ! 0)))
     \<le> str_key (version (ev_fields (latest_versions
        (registry_document plain_exporter unsorted_versions
           [exported ''10'' ''None'' ''r10'', exported ''2'' ''None'' ''r2'']) ! 1))) \<and>
   map (\<lambda>x. version (ev_fields x))
     (latest_versions (registry_document plain_exporter unsorted_versions
        [exported ''10'' ''None'' ''r10'', exported ''2'' ''None'' ''r2'']))
     = [VStr ''10'', VStr ''2''] \<and>
   fst (export_model_document plain_exporter (registry_env numbered_versions) ''M'' ''/out'' s0)
     = Inr ((), map manifest_dct numbered_versions,
            registry_document plain_exporter numbered_versions
              [exported_int 2 ''None'' ''r2'', exported_int 10 ''None'' ''r10'']) \<and>
   map version numbered_versions = [VInt 10, VInt 2] \<and>
   list_all (\<lambda>x. is_int (version (ev_fields x)))
     (latest_versions (registry_document plain_exporter numbered_versions
        [exported_int 2 ''None'' ''r2'', exported_int 10 ''None'' ''r10''])) \<and>
   int_key (version (ev_fields (latest_versions
        (registry_document plain_exporter numbered_versions
           [exported_int 2 ''None'' ''r2'', exported_int 10 ''None'' ''r10'']) ! 0)))
     \<le> int_key (version (ev_fields (latest_versions
        (registry_document plain_exporter numbered_versions
           [exported_int 2 ''None'' ''r2'', exported_int 10 ''None'' ''r10'']) ! 1))) \<and>
   map (\<lambda>x. version (ev_fields x))
     (latest_versions (registry_document plain_exporter numbered_versions
        [exported_int 2 ''None'' ''r2'', exported_int 10 ''None'' ''r10'']))
     = [VInt 2, VInt 10]"
proof -
  let ?sdoc = "registry_document plain_exporter unsorted_versions
                 [exported ''10'' ''None'' ''r10'', exported ''2'' ''None'' ''r2'']"
  let ?idoc = "registry_document plain_exporter numbered_versions
                 [exported_int 2 ''None'' ''r2'', exported_int 10 ''None'' ''r10'']"
  have str: "list_all (\<lambda>x. is_str (version (ev_fields x))) (latest_versions ?sdoc)"
    by (simp add: doc_defs make_document_def mv_def)
  have int: "list_all (\<lambda>x. is_int (version (ev_fields x))) (latest_versions ?idoc)"
    by (simp add: doc_defs make_document_def exported_int_def mv_int_def)
  from C6_output_sorted_by_identifier_kind [where ex = plain_exporter
      and env = "registry_env unsorted_versions" and model_name = "''M''"
      and output_dir = "''/out''" and s = s0 and fs = "()"
      and m = "map manifest_dct unsorted_versions" and doc = ?sdoc
      and s' = "\<lparr>world = [''/out'', ''/out/r2'', ''/out/r10''],
         out = [FoundVersions 2 ''M'',
                Exporting (manifest_dct (mv ''2'' ''None'' ''r2'')),
                Exporting (manifest_dct (mv ''10'' ''None'' ''r10'')),
                Exported 2 2 ''M'']\<rparr>"]
    unsorted_document str
  have ssorted: "\<forall>i j. i < j \<and> j < length (latest_versions ?sdoc) \<longrightarrow>
         str_key (version (ev_fields (latest_versions ?sdoc ! i)))
           \<le> str_key (version (ev_fields (latest_versions ?sdoc ! j)))"
    by blast
  from C6_output_sorted_by_identifier_kind [where ex = plain_exporter
      and env = "registry_env numbered_versions" and model_name = "''M''"
      and output_dir = "''/out''" and s = s0 and fs = "()"
      and m = "map manifest_dct numbered_versions" and doc = ?idoc
      and s' = "\<lparr>world = [''/out'', ''/out/r10'', ''/out/r2''],
         out = [FoundVersions 2 ''M'',
                Exporting (manifest_dct (mv_int 10 ''None'' ''r10'')),
                Exporting (manifest_dct (mv_int 2 ''None'' ''r2'')),
                Exported 2 2 ''M'']\<rparr>"]
    numbered_document int
  have isorted: "\<forall>i j. i < j \<and> j < length (latest_versions ?idoc) \<longrightarrow>
         int_key (version (ev_fields (latest_versions ?idoc ! i)))
           \<le> int_key (version (ev_fields (latest_versions ?idoc ! j)))"
    by blast
  have s01: "str_key (version (ev_fields (latest_versions ?sdoc ! 0)))
      \<le> str_key (version (ev_fields (latest_versions ?sdoc ! 1)))"
    using ssorted [rule_format, of 0 1] by (simp add: doc_defs make_document_def)
  have i01: "int_key (version (ev_fields (latest_versions ?idoc ! 0)))
      \<le> int_key (version (ev_fields (latest_versions ?idoc ! 1)))"
    using isorted [rule_format, of 0 1] by (simp add: doc_defs make_document_def)
  from s01 i01 str int show ?thesis
    using unsorted_document numbered_document
    by (simp add: doc_defs make_document_def unsorted_versions_def numbered_versions_def
          mv_def mv_int_def exported_int_def)
qed

text \<open>
  Claim C6 as the specification states it fails for a registry that returns integer
  identifiers. For the versions 10 and 2 the output sequence is 2, 10: the order is
  numeric, and the earlier record's version string \<open>2\<close> is not smaller than or equal to
  the later one's, \<open>10\<close>.
\<close>

theorem C6_integer_versions_sorted_numerically:
  "map version numbered_versions = [VInt 10, VInt 2] \<and>
   (case export_model_document plain_exporter (registry_env numbered_versions)
           ''M'' ''/out'' s0 of
      (Inl e, s') \<Rightarrow> False
    | (Inr (fs, m, doc), s') \<Rightarrow>
        map (\<lambda>x. version (ev_fields x)) (latest_versions doc) = [VInt 2, VInt 10]) \<and>
   version_text (VInt 2) = ''2'' \<and>
   version_text (VInt 10) = ''10'' \<and>
   \<not> version_text (VInt 2) \<le> version_text (VInt 10)"
proof -
  have two: "version_text (VInt 2) = ''2''"
    by (simp add: version_text_def)
  have ten: "version_text (VInt 10) = ''10''"
    by (simp add: version_text_def)
  have run: "case export_model_document plain_exporter (registry_env numbered_versions)
           ''M'' ''/out'' s0 of
      (Inl e, s') \<Rightarrow> False
    | (Inr (fs, m, doc), s') \<Rightarrow>
        map (\<lambda>x. version (ev_fields x)) (latest_versions doc) = [VInt 2, VInt 10]"
    by (simp add: numbered_document)
      (simp add: doc_defs make_document_def exported_int_def mv_int_def)
  have "map version numbered_versions = [VInt 10, VInt 2]"
    by (simp add: numbered_versions_def mv_int_def)
  with two ten run show ?thesis by simp
qed

end
